theory Spec2Isabelle
  imports Main "HOL-Library.Log_Nat"
begin

unbundle bit_operations_syntax

section \<open>Economic calendar parser: the normalisation pipeline of calendar.py\<close>

text \<open>
  The development embeds the computational core of \<^verbatim>\<open>calendar.py\<close>: \<^verbatim>\<open>parse_number\<close>,
  \<^verbatim>\<open>sha1_id\<close>, \<^verbatim>\<open>convert_time\<close>, the per-row bodies of the two providers' \<^verbatim>\<open>fetch\<close>
  loops and \<^verbatim>\<open>notify_upcoming\<close>.

  Conventions.
  \<^item> A Python \<^verbatim>\<open>str\<close> is a \<^typ>\<open>string\<close> whose characters are the code points
    U+0000 .. U+00FF (one \<^typ>\<open>char\<close> per code point); strings with code points beyond
    U+00FF are outside the model.
  \<^item> A Python exception is a value of \<open>py_exception\<close>; a function that may raise
    returns \<open>py_exception + 'a\<close>, with \<open>Inl\<close> the raised exception.
  \<^item> A Python \<^verbatim>\<open>float\<close> is an IEEE-754 binary64 value: \<open>Fin m e\<close> stands for
    \<open>m * 2 ^ e\<close> with \<open>m\<close> odd (or \<open>Fin 0 0\<close> for zero; the two zeros, which Python's
    \<^verbatim>\<open>==\<close> identifies, are one value here), besides the infinities and NaN.
  \<^item> The libraries the program calls are modelled after their documented behaviour:
    \<^verbatim>\<open>float\<close>, \<^verbatim>\<open>int\<close>, \<^verbatim>\<open>hashlib.sha1\<close> and the arithmetic and rendering of \<^verbatim>\<open>datetime\<close>
    are written out; the date parser, the zone table and the host's zone are parameters
    (\<open>timelib\<close>). The \<^verbatim>\<open>fold\<close> attribute of a \<^verbatim>\<open>datetime\<close> is not modelled: a wall-clock
    time that occurs twice is read as its first occurrence.
  \<^item> Fetching a page and selecting its rows is outside the model: the row loops take
    the rows as given.
\<close>

subsection \<open>Exceptions\<close>

datatype py_exception =
  ValueError | TypeError | AttributeError | OverflowError | IndexError

subsection \<open>Python string operations\<close>

definition ord :: "char \<Rightarrow> nat" where
  "ord c = of_char c"

text \<open>\<^verbatim>\<open>str.isspace\<close> on one code point below U+0100.\<close>

definition py_isspace :: "char \<Rightarrow> bool" where
  "py_isspace c = ((9 \<le> ord c \<and> ord c \<le> 13) \<or> (28 \<le> ord c \<and> ord c \<le> 32)
     \<or> ord c = 133 \<or> ord c = 160)"

definition py_isdigit :: "char \<Rightarrow> bool" where
  "py_isdigit c = (48 \<le> ord c \<and> ord c \<le> 57)"

text \<open>\<^verbatim>\<open>s.strip()\<close>.\<close>

definition strip :: "string \<Rightarrow> string" where
  "strip s = rev (dropWhile py_isspace (rev (dropWhile py_isspace s)))"

text \<open>
  The whitespace \<^verbatim>\<open>int(str)\<close> and \<^verbatim>\<open>float(str)\<close> drop around a number: the ASCII
  whitespace of C and the two spaces above U+007F; the separators U+001C .. U+001F are
  not among it.
\<close>

definition num_isspace :: "char \<Rightarrow> bool" where
  "num_isspace c = ((9 \<le> ord c \<and> ord c \<le> 13) \<or> ord c = 32 \<or> ord c = 133 \<or> ord c = 160)"

definition num_strip :: "string \<Rightarrow> string" where
  "num_strip s = rev (dropWhile num_isspace (rev (dropWhile num_isspace s)))"

text \<open>\<^verbatim>\<open>s.endswith(suf)\<close>.\<close>

definition endswith :: "string \<Rightarrow> string \<Rightarrow> bool" where
  "endswith s suf = (length suf \<le> length s \<and> drop (length s - length suf) s = suf)"

text \<open>\<^verbatim>\<open>s.replace(c, "")\<close> for a one-character \<^verbatim>\<open>c\<close>: every occurrence is removed.\<close>

definition remove_all :: "char \<Rightarrow> string \<Rightarrow> string" where
  "remove_all c s = filter (\<lambda>x. x \<noteq> c) s"

text \<open>\<^verbatim>\<open>s.lower()\<close>: A-Z and the upper-case letters of U+00C0 .. U+00DE (without the
  multiplication sign U+00D7) move up by 32.\<close>

definition lower_char :: "char \<Rightarrow> char" where
  "lower_char c = (if (65 \<le> ord c \<and> ord c \<le> 90) \<or> (192 \<le> ord c \<and> ord c \<le> 222 \<and> ord c \<noteq> 215)
     then char_of (ord c + 32) else c)"

definition lower :: "string \<Rightarrow> string" where
  "lower s = map lower_char s"

text \<open>\<^verbatim>\<open>sep.join(xs)\<close>.\<close>

fun join :: "string \<Rightarrow> string list \<Rightarrow> string" where
  "join sep [] = []"
| "join sep [x] = x"
| "join sep (x # y # ys) = x @ sep @ join sep (y # ys)"

subsection \<open>Binary64 floating point\<close>

datatype pyfloat = Fin int int | PInf | NInf | NaN

text \<open>Strip factors of two from a non-zero mantissa (at most \<open>k\<close> of them).\<close>

fun canon :: "nat \<Rightarrow> int \<Rightarrow> int \<Rightarrow> int \<times> int" where
  "canon 0 m e = (m, e)"
| "canon (Suc k) m e =
     (if m = 0 then (0, 0) else if even m then canon k (m div 2) (e + 1) else (m, e))"

text \<open>\<open>n / d\<close> rounded to the nearest integer, ties to even (\<open>0 \<le> n\<close>, \<open>0 < d\<close>).\<close>

definition div_half_even :: "int \<Rightarrow> int \<Rightarrow> int" where
  "div_half_even n d = (let q = n div d; r = n mod d in
     if 2 * r < d then q else if 2 * r > d then q + 1 else if even q then q else q + 1)"

text \<open>The \<open>k\<close> with \<open>2 ^ k \<le> n / d < 2 ^ (k + 1)\<close> (\<open>0 < n\<close>, \<open>0 < d\<close>).\<close>

definition floor_log2 :: "int \<Rightarrow> int \<Rightarrow> int" where
  "floor_log2 n d = (let k = bitlen n - bitlen d in
     if (if k \<ge> 0 then d * 2 ^ nat k \<le> n else d \<le> n * 2 ^ nat (- k)) then k else k - 1)"

text \<open>
  Round the positive rational \<open>n / d\<close> to binary64, round-to-nearest-even: 53 significant
  bits, the quantum never below \<open>2 ^ (- 1074)\<close> (subnormals), overflow from \<open>2 ^ 1024\<close> on
  (\<open>None\<close>).
\<close>

definition round_pos :: "int \<Rightarrow> int \<Rightarrow> (int \<times> int) option" where
  "round_pos n d = (let e = max (floor_log2 n d - 52) (- 1074);
       m = (if e \<ge> 0 then div_half_even n (d * 2 ^ nat e)
            else div_half_even (n * 2 ^ nat (- e)) d)
     in if m * 2 ^ nat (e + 1074) \<ge> 2 ^ 2098 then None else Some (canon 64 m e))"

text \<open>\<open>dbl n d\<close> is the binary64 value nearest to \<open>n / d\<close> (\<open>0 < d\<close>): what Python's float
  literal, \<^verbatim>\<open>float(str)\<close> and one arithmetic operation with exact result \<open>n / d\<close> return.\<close>

definition dbl :: "int \<Rightarrow> int \<Rightarrow> pyfloat" where
  "dbl n d = (if n = 0 then Fin 0 0 else
     case round_pos \<bar>n\<bar> d of
       None \<Rightarrow> (if n < 0 then NInf else PInf)
     | Some (m, e) \<Rightarrow> Fin (if n < 0 then - m else m) e)"

text \<open>\<^verbatim>\<open>x * y\<close> on floats.\<close>

fun fmul :: "pyfloat \<Rightarrow> pyfloat \<Rightarrow> pyfloat" where
  "fmul (Fin m1 e1) (Fin m2 e2) =
     (if e1 + e2 \<ge> 0 then dbl (m1 * m2 * 2 ^ nat (e1 + e2)) 1
      else dbl (m1 * m2) (2 ^ nat (- (e1 + e2))))"
| "fmul NaN _ = NaN"
| "fmul _ NaN = NaN"
| "fmul (Fin m e) PInf = (if m = 0 then NaN else if m < 0 then NInf else PInf)"
| "fmul (Fin m e) NInf = (if m = 0 then NaN else if m < 0 then PInf else NInf)"
| "fmul PInf (Fin m e) = (if m = 0 then NaN else if m < 0 then NInf else PInf)"
| "fmul NInf (Fin m e) = (if m = 0 then NaN else if m < 0 then PInf else NInf)"
| "fmul PInf PInf = PInf"
| "fmul PInf NInf = NInf"
| "fmul NInf PInf = NInf"
| "fmul NInf NInf = PInf"

subsection \<open>The builtin \<^verbatim>\<open>float(str)\<close>\<close>

text \<open>
  An underscore is accepted only between two digits; the check runs over the whole
  text, \<open>prev\<close> being the character before.
\<close>

fun underscores_ok :: "char option \<Rightarrow> string \<Rightarrow> bool" where
  "underscores_ok prev [] = (prev \<noteq> Some CHR ''_'')"
| "underscores_ok prev (c # cs) =
     ((if c = CHR ''_'' then (case prev of Some p \<Rightarrow> py_isdigit p | None \<Rightarrow> False)
       else (if prev = Some CHR ''_'' then py_isdigit c else True))
      \<and> underscores_ok (Some c) cs)"

definition digits_val :: "string \<Rightarrow> int" where
  "digits_val ds = foldl (\<lambda>a c. 10 * a + (int (ord c) - 48)) 0 ds"

definition split_sign :: "string \<Rightarrow> bool \<times> string" where
  "split_sign s = (case s of
       [] \<Rightarrow> (False, [])
     | c # r \<Rightarrow> if c = CHR ''-'' then (True, r) else if c = CHR ''+'' then (False, r)
                else (False, s))"

text \<open>The exponent part: empty, or \<^verbatim>\<open>e\<close>/\<^verbatim>\<open>E\<close>, an optional sign and at least one digit.\<close>

definition parse_exponent :: "string \<Rightarrow> int option" where
  "parse_exponent s = (case s of
       [] \<Rightarrow> Some 0
     | c # r \<Rightarrow>
         if c = CHR ''e'' \<or> c = CHR ''E'' then
           (let (neg, ds) = split_sign r in
            if ds \<noteq> [] \<and> list_all py_isdigit ds
            then Some (if neg then - digits_val ds else digits_val ds) else None)
         else None)"

text \<open>
  An unsigned decimal: digits, an optional point and digits, with a digit on at least
  one side of the point, then the exponent part. The result is a fraction \<open>(n, d)\<close>.
\<close>

definition parse_decimal :: "string \<Rightarrow> (int \<times> int) option" where
  "parse_decimal s =
     (let ip = takeWhile py_isdigit s; r1 = dropWhile py_isdigit s;
          (fp, r2) = (case r1 of
                        [] \<Rightarrow> ([], [])
                      | c # r \<Rightarrow> if c = CHR ''.''
                                 then (takeWhile py_isdigit r, dropWhile py_isdigit r)
                                 else ([], r1))
      in if ip = [] \<and> fp = [] then None
         else case parse_exponent r2 of
                None \<Rightarrow> None
              | Some ex \<Rightarrow>
                  (let n = digits_val (ip @ fp); k = ex - int (length fp)
                   in if k \<ge> 0 then Some (n * 10 ^ nat k, 1) else Some (n, 10 ^ nat (- k))))"

text \<open>
  \<^verbatim>\<open>float(s)\<close> for a \<^verbatim>\<open>str\<close>: surrounding whitespace is dropped, underscores are
  checked and removed, then a sign and \<^verbatim>\<open>inf\<close>, \<^verbatim>\<open>infinity\<close>, \<^verbatim>\<open>nan\<close> (any case) or a
  decimal follow. Anything else raises \<^verbatim>\<open>ValueError\<close>.
\<close>

definition py_float :: "string \<Rightarrow> py_exception + pyfloat" where
  "py_float s =
     (let t = num_strip s in
      if \<not> underscores_ok None t then Inl ValueError
      else
        (let (neg, body) = split_sign (remove_all CHR ''_'' t) in
         if lower body = ''inf'' \<or> lower body = ''infinity''
         then Inr (if neg then NInf else PInf)
         else if lower body = ''nan'' then Inr NaN
         else case parse_decimal body of
                None \<Rightarrow> Inl ValueError
              | Some (n, d) \<Rightarrow> Inr (dbl (if neg then - n else n) d)))"

subsection \<open>\<^verbatim>\<open>parse_number\<close>\<close>

text \<open>
  The source rebinds \<^verbatim>\<open>s\<close> and \<^verbatim>\<open>mult\<close>; here each rebinding is a new name. \<^verbatim>\<open>mult\<close> is
  the int \<^verbatim>\<open>1\<close> or the float \<^verbatim>\<open>1e3\<close> or \<^verbatim>\<open>1e6\<close>; the product with a float converts the
  int to \<^verbatim>\<open>1.0\<close>. Only \<^verbatim>\<open>ValueError\<close> is caught.
\<close>

definition parse_number :: "string option \<Rightarrow> py_exception + pyfloat option" where
  "parse_number so =
     (case so of
        None \<Rightarrow> Inr None
      | Some s0 \<Rightarrow>
          if s0 = [] then Inr None
          else
            (let s1 = remove_all CHR '','' (strip s0);
                 s2 = (if endswith s1 ''%'' then remove_all CHR ''%'' s1 else s1);
                 (mult, s3) =
                    (if endswith s2 ''K'' then (dbl 1000 1, remove_all CHR ''K'' s2)
                     else if endswith s2 ''M'' then (dbl 1000000 1, remove_all CHR ''M'' s2)
                     else (dbl 1 1, s2))
             in case py_float s3 of
                  Inr x \<Rightarrow> Inr (Some (fmul x mult))
                | Inl ValueError \<Rightarrow> Inr None
                | Inl e \<Rightarrow> Inl e))"

subsection \<open>SHA-1 (\<^verbatim>\<open>hashlib.sha1\<close>) and UTF-8\<close>

text \<open>
  Bytes and 32-bit words are integers, the wrap-around of the 32-bit operations written
  out (\<open>word32\<close>).

  \<^verbatim>\<open>text.encode("utf-8")\<close> for code points below U+0100: one byte below U+0080, two
  bytes from there on.
\<close>

definition utf8_encode :: "string \<Rightarrow> int list" where
  "utf8_encode s = concat (map (\<lambda>c. if (of_char c :: int) < 128 then [of_char c]
       else [192 + of_char c div 64, 128 + of_char c mod 64]) s)"

text \<open>Padding: the byte 0x80, zero bytes up to 56 modulo 64, the bit length as 64 bits
  big-endian.\<close>

definition sha1_pad :: "int list \<Rightarrow> int list" where
  "sha1_pad msg = (let n = int (length msg); k = nat ((64 - (n + 9) mod 64) mod 64)
     in msg @ [128] @ replicate k 0
        @ map (\<lambda>i. (8 * n) div 256 ^ i mod 256) [7, 6, 5, 4, 3, 2, 1, 0])"

function chunks :: "nat \<Rightarrow> 'a list \<Rightarrow> 'a list list" where
  "chunks n xs = (if n = 0 \<or> xs = [] then [] else take n xs # chunks n (drop n xs))"
  by pat_completeness auto
termination by (relation "measure (\<lambda>(n, xs). length xs)") auto

declare chunks.simps [simp del]

definition word32 :: "int \<Rightarrow> int" where
  "word32 x = x mod 4294967296"

text \<open>Rotation to the left by \<open>n\<close> bits and complement, of a word \<open>0 \<le> w < 2 ^ 32\<close>.\<close>

definition rotl :: "nat \<Rightarrow> int \<Rightarrow> int" where
  "rotl n w = word32 (w * 2 ^ n) + w div 2 ^ (32 - n)"

definition not32 :: "int \<Rightarrow> int" where
  "not32 w = 4294967295 - w"

definition be32 :: "int list \<Rightarrow> int" where
  "be32 bs = foldl (\<lambda>a b. a * 256 + b) 0 bs"

text \<open>The message schedule: \<open>expand k\<close> appends \<open>k\<close> words to the sixteen of a block.\<close>

definition schedule_word :: "int list \<Rightarrow> int" where
  "schedule_word ws = rotl 1 (ws ! (length ws - 3) XOR ws ! (length ws - 8)
     XOR ws ! (length ws - 14) XOR ws ! (length ws - 16))"

fun expand :: "nat \<Rightarrow> int list \<Rightarrow> int list" where
  "expand 0 ws = ws"
| "expand (Suc k) ws = expand k (ws @ [schedule_word ws])"

type_synonym sha1_state = "int \<times> int \<times> int \<times> int \<times> int"

definition sha1_round :: "sha1_state \<Rightarrow> nat \<times> int \<Rightarrow> sha1_state" where
  "sha1_round st tw = (case st of (a, b, c, d, e) \<Rightarrow> (case tw of (t, w) \<Rightarrow>
     (let (f, k) =
        (if t < 20 then ((b AND c) OR (not32 b AND d), 0x5A827999)
         else if t < 40 then (b XOR c XOR d, 0x6ED9EBA1)
         else if t < 60 then ((b AND c) OR (b AND d) OR (c AND d), 0x8F1BBCDC)
         else (b XOR c XOR d, 0xCA62C1D6));
          temp = word32 (rotl 5 a + f + e + k + w)
      in (temp, a, rotl 30 b, c, d))))"

definition sha1_block :: "sha1_state \<Rightarrow> int list \<Rightarrow> sha1_state" where
  "sha1_block h blk = (let ws = expand 64 (map be32 (chunks 4 blk));
       (a, b, c, d, e) = foldl sha1_round h (zip [0..<80] ws);
       (h0, h1, h2, h3, h4) = h
     in (word32 (h0 + a), word32 (h1 + b), word32 (h2 + c), word32 (h3 + d), word32 (h4 + e)))"

definition sha1 :: "int list \<Rightarrow> sha1_state" where
  "sha1 msg = foldl sha1_block (0x67452301, 0xEFCDAB89, 0x98BADCFE, 0x10325476, 0xC3D2E1F0)
     (chunks 64 (sha1_pad msg))"

definition hex_digit :: "int \<Rightarrow> char" where
  "hex_digit n = (if n < 10 then char_of (48 + n) else char_of (87 + n))"

definition hex32 :: "int \<Rightarrow> string" where
  "hex32 w = map (\<lambda>i. hex_digit ((w div 16 ^ i) mod 16)) [7, 6, 5, 4, 3, 2, 1, 0]"

text \<open>\<^verbatim>\<open>.hexdigest()\<close>: forty lower-case hexadecimal digits.\<close>

definition hexdigest :: "sha1_state \<Rightarrow> string" where
  "hexdigest st = (case st of (a, b, c, d, e) \<Rightarrow> hex32 a @ hex32 b @ hex32 c @ hex32 d @ hex32 e)"

subsection \<open>\<^verbatim>\<open>sha1_id\<close>\<close>

text \<open>
  The arguments are strings or \<^verbatim>\<open>None\<close>. \<^verbatim>\<open>if a\<close> drops \<^verbatim>\<open>None\<close> and the empty string;
  \<^verbatim>\<open>str(a)\<close> of a string is the string. \<open>sha1_id_text\<close> is the local \<^verbatim>\<open>text\<close>.
\<close>

definition truthy :: "string option \<Rightarrow> bool" where
  "truthy a = (case a of None \<Rightarrow> False | Some s \<Rightarrow> s \<noteq> [])"

definition str_of :: "string option \<Rightarrow> string" where
  "str_of a = (case a of None \<Rightarrow> ''None'' | Some s \<Rightarrow> s)"

definition sha1_id_text :: "string option list \<Rightarrow> string" where
  "sha1_id_text args = join ''|'' (map str_of (filter truthy args))"

definition sha1_id :: "string option list \<Rightarrow> string" where
  "sha1_id args = hexdigest (sha1 (utf8_encode (sha1_id_text args)))"

text \<open>
  Predicates for stating what \<^verbatim>\<open>sha1_id\<close> separates: a field free of the separator, and
  the string a possibly absent \<^verbatim>\<open>time_utc\<close> contributes (\<^verbatim>\<open>None\<close> and the empty string
  contribute nothing alike).
\<close>

definition pipe_free :: "string \<Rightarrow> bool" where
  "pipe_free s = (CHR ''|'' \<notin> set s)"

definition field_ok :: "string \<Rightarrow> bool" where
  "field_ok s = (s \<noteq> [] \<and> pipe_free s)"

definition time_str :: "string option \<Rightarrow> string" where
  "time_str u = (case u of None \<Rightarrow> [] | Some s \<Rightarrow> s)"

text \<open>A decoder for the two-byte UTF-8 range, used to show the encoding injective.\<close>

fun utf8_decode :: "int list \<Rightarrow> string" where
  "utf8_decode [] = []"
| "utf8_decode [b] = [char_of b]"
| "utf8_decode (b1 # b2 # bs) =
     (if b1 < 128 then char_of b1 # utf8_decode (b2 # bs)
      else char_of ((b1 - 192) * 64 + (b2 - 128)) # utf8_decode bs)"

subsection \<open>Dates and times (\<^verbatim>\<open>datetime\<close>, \<^verbatim>\<open>dateutil\<close>)\<close>

text \<open>
  A wall-clock reading is a count of microseconds from 0001-01-01 00:00:00 on the
  proleptic Gregorian calendar; \<^verbatim>\<open>datetime\<close> covers the years 1 to 9999. A \<^verbatim>\<open>tzinfo\<close>
  object is a record of its two methods: \<open>utcoffset\<close> gives the offset (microseconds) of
  a wall-clock reading, \<open>fromutc\<close> the wall-clock reading of a UTC reading; \<open>zid\<close> stands
  for the identity of the object (\<^verbatim>\<open>is\<close>). A \<^verbatim>\<open>datetime\<close> is a wall-clock reading with an
  optional \<^verbatim>\<open>tzinfo\<close> (absent: naive).
\<close>

record zone =
  zid :: string
  utcoffset :: "int \<Rightarrow> int"
  fromutc :: "int \<Rightarrow> int"

record datetime =
  wall :: int
  tzinfo :: "zone option"

definition usec_per_day :: int where
  "usec_per_day = 86400000000"

text \<open>\<^verbatim>\<open>date.max.toordinal()\<close> is 3652059.\<close>

definition max_usec :: int where
  "max_usec = 3652059 * usec_per_day"

definition in_range :: "int \<Rightarrow> bool" where
  "in_range w = (0 \<le> w \<and> w < max_usec)"

text \<open>\<^verbatim>\<open>tz.UTC\<close>.\<close>

definition tz_UTC :: zone where
  "tz_UTC = \<lparr>zid = ''tzutc()'', utcoffset = (\<lambda>w. 0), fromutc = (\<lambda>u. u)\<rparr>"

text \<open>
  What the program takes from its libraries and its host: \<^verbatim>\<open>dateparser.parse\<close>, which
  returns a \<^verbatim>\<open>datetime\<close> or raises; \<^verbatim>\<open>tz.gettz\<close>, which returns a zone, or \<^verbatim>\<open>None\<close> for a
  name it does not know; and the host's local zone, which \<^verbatim>\<open>astimezone\<close> takes for a
  naive \<^verbatim>\<open>datetime\<close> and for the target \<^verbatim>\<open>None\<close>.
\<close>

record timelib =
  parse :: "string \<Rightarrow> py_exception + datetime"
  gettz :: "string \<Rightarrow> zone option"
  tzlocal :: zone

text \<open>\<^verbatim>\<open>dt + delta\<close> (and \<^verbatim>\<open>dt - delta\<close>): wall-clock arithmetic, the \<^verbatim>\<open>tzinfo\<close> kept;
  \<^verbatim>\<open>OverflowError\<close> outside the years 1 to 9999.\<close>

definition dt_add :: "datetime \<Rightarrow> int \<Rightarrow> py_exception + datetime" where
  "dt_add d delta = (if in_range (wall d + delta) then Inr (d\<lparr>wall := wall d + delta\<rparr>)
     else Inl OverflowError)"

text \<open>
  \<^verbatim>\<open>dt.astimezone(tz)\<close>. The zone of a naive \<^verbatim>\<open>dt\<close> is the local zone; conversion to the
  zone \<^verbatim>\<open>dt\<close> already carries returns \<^verbatim>\<open>dt\<close>; otherwise the offset is subtracted and the
  target's \<^verbatim>\<open>fromutc\<close> applied, each step within the years 1 to 9999.
\<close>

definition astimezone :: "timelib \<Rightarrow> zone option \<Rightarrow> datetime \<Rightarrow> py_exception + datetime" where
  "astimezone L target d =
     (let mytz = (case tzinfo d of None \<Rightarrow> tzlocal L | Some z \<Rightarrow> z);
          same = (case (tzinfo d, target) of (Some z, Some t) \<Rightarrow> zid z = zid t | _ \<Rightarrow> False)
      in if same then Inr d
         else
           (let utc = wall d - utcoffset mytz (wall d);
                tz = (case target of None \<Rightarrow> tzlocal L | Some t \<Rightarrow> t)
            in if \<not> in_range utc then Inl OverflowError
               else if \<not> in_range (fromutc tz utc) then Inl OverflowError
               else Inr \<lparr>wall = fromutc tz utc, tzinfo = Some tz\<rparr>))"

subsubsection \<open>Rendering\<close>

definition is_leap :: "int \<Rightarrow> bool" where
  "is_leap y = (y mod 4 = 0 \<and> (if y mod 100 = 0 then y mod 400 = 0 else True))"

definition days_before_year :: "int \<Rightarrow> int" where
  "days_before_year year = (let y = year - 1 in y * 365 + y div 4 - y div 100 + y div 400)"

definition DAYS_IN_MONTH :: "int list" where
  "DAYS_IN_MONTH = [- 1, 31, 28, 31, 30, 31, 30, 31, 31, 30, 31, 30, 31]"

definition DAYS_BEFORE_MONTH :: "int list" where
  "DAYS_BEFORE_MONTH = [- 1, 0, 31, 59, 90, 120, 151, 181, 212, 243, 273, 304, 334]"

definition days_before_month :: "int \<Rightarrow> nat \<Rightarrow> int" where
  "days_before_month year month =
     DAYS_BEFORE_MONTH ! month + (if month > 2 \<and> is_leap year then 1 else 0)"

text \<open>The ordinal of a date (1 for 0001-01-01), \<open>1 \<le> month \<le> 12\<close>.\<close>

definition ymd2ord :: "int \<Rightarrow> nat \<Rightarrow> int \<Rightarrow> int" where
  "ymd2ord year month day = days_before_year year + days_before_month year month + day"

text \<open>The date of an ordinal, after \<^verbatim>\<open>_ord2ymd\<close> of the standard library.\<close>

definition ord2ymd :: "int \<Rightarrow> int \<times> nat \<times> int" where
  "ord2ymd n0 =
     (let n1 = n0 - 1;
          n400 = n1 div 146097; n2 = n1 mod 146097;
          n100 = n2 div 36524; n3 = n2 mod 36524;
          n4 = n3 div 1461; n5 = n3 mod 1461;
          n1y = n5 div 365; n = n5 mod 365;
          year = n400 * 400 + 1 + n100 * 100 + n4 * 4 + n1y
      in if n1y = 4 \<or> n100 = 4 then (year - 1, 12, 31)
         else
           (let leapyear = (n1y = 3 \<and> (n4 \<noteq> 24 \<or> n100 = 3));
                month = nat ((n + 50) div 32);
                preceding = DAYS_BEFORE_MONTH ! month + (if month > 2 \<and> leapyear then 1 else 0)
            in if preceding > n
               then (year, month - 1,
                     n - (preceding - (DAYS_IN_MONTH ! (month - 1)
                                        + (if month - 1 = 2 \<and> leapyear then 1 else 0))) + 1)
               else (year, month, n - preceding + 1)))"

text \<open>Decimal digits of \<open>n \<ge> 0\<close>, zero-padded on the left to \<open>k\<close> digits (\<open>n < 10 ^ k\<close>).\<close>

fun pad_digits :: "nat \<Rightarrow> int \<Rightarrow> string" where
  "pad_digits 0 n = []"
| "pad_digits (Suc k) n = pad_digits k (n div 10) @ [char_of (48 + n mod 10)]"

text \<open>The date of a wall-clock reading, and its \<^verbatim>\<open>HH:MM\<close>.\<close>

definition date_of :: "int \<Rightarrow> int \<times> nat \<times> int" where
  "date_of w = ord2ymd (w div usec_per_day + 1)"

definition clock_minute :: "int \<Rightarrow> string" where
  "clock_minute w =
     (let t = w mod usec_per_day
      in pad_digits 2 (t div 3600000000) @ '':'' @ pad_digits 2 (t div 60000000 mod 60))"

text \<open>The year as \<^verbatim>\<open>%Y\<close> of the C library prints it: without leading zeros.\<close>

definition year_digits :: "int \<Rightarrow> string" where
  "year_digits y =
     (if y < 10 then pad_digits 1 y else if y < 100 then pad_digits 2 y
      else if y < 1000 then pad_digits 3 y else pad_digits 4 y)"

text \<open>The seconds, and the microseconds when they are not zero.\<close>

definition render_seconds :: "int \<Rightarrow> string" where
  "render_seconds t =
     '':'' @ pad_digits 2 (t div 1000000 mod 60)
     @ (if t mod 1000000 = 0 then [] else ''.'' @ pad_digits 6 (t mod 1000000))"

text \<open>The UTC offset as \<^verbatim>\<open>+HH:MM\<close>, with seconds when the offset has any.\<close>

definition render_offset :: "int \<Rightarrow> string" where
  "render_offset off =
     (let a = \<bar>off\<bar>
      in (if off < 0 then ''-'' else ''+'') @ pad_digits 2 (a div 3600000000) @ '':''
         @ pad_digits 2 (a div 60000000 mod 60)
         @ (if a mod 60000000 = 0 then [] else render_seconds (a mod 60000000)))"

text \<open>\<^verbatim>\<open>dt.isoformat()\<close>: the year with four digits.\<close>

definition isoformat :: "datetime \<Rightarrow> string" where
  "isoformat d =
     (let (y, m, dd) = date_of (wall d)
      in pad_digits 4 y @ ''-'' @ pad_digits 2 (int m) @ ''-'' @ pad_digits 2 dd @ ''T''
         @ clock_minute (wall d) @ render_seconds (wall d mod 60000000)
         @ (case tzinfo d of None \<Rightarrow> [] | Some z \<Rightarrow> render_offset (utcoffset z (wall d))))"

text \<open>\<^verbatim>\<open>dt.strftime("%Y-%m-%d %H:%M")\<close>.\<close>

definition strftime_minute :: "datetime \<Rightarrow> string" where
  "strftime_minute d =
     (let (y, m, dd) = date_of (wall d)
      in year_digits y @ ''-'' @ pad_digits 2 (int m) @ ''-'' @ pad_digits 2 dd @ '' ''
         @ clock_minute (wall d))"

subsection \<open>\<^verbatim>\<open>convert_time\<close>\<close>

text \<open>The body of the \<^verbatim>\<open>try\<close> block.\<close>

definition convert_time_try :: "timelib \<Rightarrow> string \<Rightarrow> string \<Rightarrow> string \<Rightarrow> py_exception + string \<times> string" where
  "convert_time_try L dt_str tz_from tz_to =
     (case parse L dt_str of
        Inl e \<Rightarrow> Inl e
      | Inr parsed \<Rightarrow>
          (let dt_obj = (if tz_from \<noteq> [] then parsed\<lparr>tzinfo := gettz L tz_from\<rparr>
                         else parsed\<lparr>tzinfo := Some tz_UTC\<rparr>)
           in case astimezone L (Some tz_UTC) dt_obj of
                Inl e \<Rightarrow> Inl e
              | Inr utc_time \<Rightarrow>
                  (case astimezone L (gettz L tz_to) dt_obj of
                     Inl e \<Rightarrow> Inl e
                   | Inr local_time \<Rightarrow> Inr (isoformat utc_time, strftime_minute local_time))))"

text \<open>\<^verbatim>\<open>except Exception: return None, None\<close>: every exception of the model is caught.\<close>

definition convert_time :: "timelib \<Rightarrow> string \<Rightarrow> string \<Rightarrow> string \<Rightarrow> py_exception + string option \<times> string option" where
  "convert_time L dt_str tz_from tz_to =
     (case convert_time_try L dt_str tz_from tz_to of
        Inl e \<Rightarrow> Inr (None, None)
      | Inr (u, l) \<Rightarrow> Inr (Some u, Some l))"

subsection \<open>Events and the providers' row loops\<close>

record event =
  provider :: string
  title :: string
  country :: string
  importance :: string
  time_utc :: "string option"
  time_local :: "string option"
  timezone :: string
  actual_value :: "pyfloat option"
  forecast_value :: "pyfloat option"
  previous_value :: "pyfloat option"
  event_id :: string

definition IMPORTANCE_MAP :: "(string \<times> string) list" where
  "IMPORTANCE_MAP = [(''low'', ''low''), (''medium'', ''medium''), (''high'', ''high'')]"

text \<open>\<^verbatim>\<open>IMPORTANCE_MAP.get(imp, "medium")\<close>.\<close>

definition importance_get :: "string \<Rightarrow> string" where
  "importance_get imp = (case map_of IMPORTANCE_MAP imp of None \<Rightarrow> ''medium'' | Some v \<Rightarrow> v)"

text \<open>
  One pass of a \<^verbatim>\<open>for row in rows\<close> body ends in \<^verbatim>\<open>continue\<close> (\<open>Skipped\<close>), in the
  \<^verbatim>\<open>except\<close> clause that logs the exception (\<open>Raised\<close>), or in \<^verbatim>\<open>events.append\<close>
  (\<open>Appended\<close>).
\<close>

datatype row_outcome = Skipped | Raised py_exception | Appended event

text \<open>
  A ForexFactory row: for each selector what \<^verbatim>\<open>select_one\<close> finds, \<^verbatim>\<open>None\<close> or a cell,
  the cell given by its \<^verbatim>\<open>get_text(strip=True)\<close>. A cell that is found is truthy.
\<close>

record ff_row =
  time_cell :: "string option"
  title_cell :: "string option"
  country_cell :: "string option"
  impact_cell :: "string option"
  actual_cell :: "string option"
  forecast_cell :: "string option"
  previous_cell :: "string option"

text \<open>\<^verbatim>\<open>parse_number(cell.get_text(strip=True)) if cell else None\<close>.\<close>

definition cell_number :: "string option \<Rightarrow> py_exception + pyfloat option" where
  "cell_number cell = (case cell of None \<Rightarrow> Inr None | Some txt \<Rightarrow> parse_number (Some txt))"

definition ff_process_row :: "timelib \<Rightarrow> string list \<Rightarrow> string list \<Rightarrow> ff_row \<Rightarrow> row_outcome" where
  "ff_process_row L countries importance_filter row =
     (case title_cell row of
        None \<Rightarrow> Skipped
      | Some title_text \<Rightarrow>
          (let country_text = (case country_cell row of Some c \<Rightarrow> c | None \<Rightarrow> []);
               imp = (case impact_cell row of Some i \<Rightarrow> lower i | None \<Rightarrow> ''medium'')
           in if countries \<noteq> [] \<and> country_text \<notin> set countries then Skipped
              else if importance_filter \<noteq> [] \<and> imp \<notin> set importance_filter then Skipped
              else
                (case time_cell row of
                   None \<Rightarrow> Raised AttributeError
                 | Some dt_str \<Rightarrow>
                     (case convert_time L dt_str ''America/New_York'' ''UTC'' of
                        Inl e \<Rightarrow> Raised e
                      | Inr (utc_time, local_time) \<Rightarrow>
                          (case cell_number (actual_cell row) of
                             Inl e \<Rightarrow> Raised e
                           | Inr a \<Rightarrow>
                               (case cell_number (forecast_cell row) of
                                  Inl e \<Rightarrow> Raised e
                                | Inr f \<Rightarrow>
                                    (case cell_number (previous_cell row) of
                                       Inl e \<Rightarrow> Raised e
                                     | Inr p \<Rightarrow>
                                         Appended
                                           \<lparr>provider = ''forex_factory'', title = title_text,
                                            country = country_text,
                                            importance = importance_get imp,
                                            time_utc = utc_time, time_local = local_time,
                                            timezone = ''UTC'',
                                            actual_value = a, forecast_value = f,
                                            previous_value = p,
                                            event_id = sha1_id [Some ''forex_factory'',
                                              Some title_text, Some country_text, utc_time]\<rparr>)))))))"

text \<open>An Investing.com row: the four \<^verbatim>\<open>data-\<close> attributes, \<^verbatim>\<open>None\<close> when the row lacks one.\<close>

record investing_row =
  data_event_title :: "string option"
  data_country :: "string option"
  data_event_importance :: "string option"
  data_event_datetime :: "string option"

text \<open>\<^verbatim>\<open>row.get(key, default)\<close>.\<close>

definition get_default :: "string option \<Rightarrow> string \<Rightarrow> string" where
  "get_default attr dflt = (case attr of None \<Rightarrow> dflt | Some v \<Rightarrow> v)"

definition investing_process_row :: "timelib \<Rightarrow> string list \<Rightarrow> string list \<Rightarrow> investing_row \<Rightarrow> row_outcome" where
  "investing_process_row L countries importance_filter row =
     (let title_text = get_default (data_event_title row) [];
          country_text = get_default (data_country row) [];
          imp = lower (get_default (data_event_importance row) ''medium'');
          dt_str = get_default (data_event_datetime row) []
      in case convert_time L dt_str ''UTC'' ''UTC'' of
           Inl e \<Rightarrow> Raised e
         | Inr (utc_time, local_time) \<Rightarrow>
             if countries \<noteq> [] \<and> country_text \<notin> set countries then Skipped
             else if importance_filter \<noteq> [] \<and> imp \<notin> set importance_filter then Skipped
             else Appended
                    \<lparr>provider = ''investing_com'', title = title_text, country = country_text,
                     importance = importance_get imp,
                     time_utc = utc_time, time_local = local_time, timezone = ''UTC'',
                     actual_value = None, forecast_value = None, previous_value = None,
                     event_id = sha1_id [Some ''investing_com'', Some title_text,
                       Some country_text, utc_time]\<rparr>)"

text \<open>The list \<^verbatim>\<open>events\<close> a loop returns: the appended events, in row order.\<close>

fun appended :: "row_outcome list \<Rightarrow> event list" where
  "appended [] = []"
| "appended (Appended e # os) = e # appended os"
| "appended (_ # os) = appended os"

definition ff_events :: "timelib \<Rightarrow> string list \<Rightarrow> string list \<Rightarrow> ff_row list \<Rightarrow> event list" where
  "ff_events L countries importance_filter rows =
     appended (map (ff_process_row L countries importance_filter) rows)"

definition investing_events :: "timelib \<Rightarrow> string list \<Rightarrow> string list \<Rightarrow> investing_row list \<Rightarrow> event list" where
  "investing_events L countries importance_filter rows =
     appended (map (investing_process_row L countries importance_filter) rows)"

subsection \<open>\<^verbatim>\<open>notify_upcoming\<close>\<close>

text \<open>
  The builtin \<^verbatim>\<open>int(str)\<close>: surrounding whitespace is dropped; an optional sign and
  decimal digits follow, single underscores allowed between digits.
\<close>

definition py_int :: "string \<Rightarrow> py_exception + int" where
  "py_int s =
     (let (neg, body) = split_sign (num_strip s); ds = remove_all CHR ''_'' body
      in if ds \<noteq> [] \<and> underscores_ok None body \<and> list_all py_isdigit ds
         then Inr (if neg then - digits_val ds else digits_val ds)
         else Inl ValueError)"

text \<open>A \<^verbatim>\<open>timedelta\<close> of \<open>us\<close> microseconds: its days lie within 999999999 either way.\<close>

definition timedelta :: "int \<Rightarrow> py_exception + int" where
  "timedelta us = (if \<bar>us div usec_per_day\<bar> \<le> 999999999 then Inr us else Inl OverflowError)"

text \<open>\<^verbatim>\<open>num, unit = int(window[:-1]), window[-1]\<close> and the choice of \<^verbatim>\<open>delta\<close>.\<close>

definition window_delta :: "string \<Rightarrow> py_exception + int" where
  "window_delta window =
     (case py_int (butlast window) of
        Inl e \<Rightarrow> Inl e
      | Inr num \<Rightarrow>
          if window = [] then Inl IndexError
          else if last window = CHR ''h'' then timedelta (num * 3600000000)
          else if last window = CHR ''m'' then timedelta (num * 60000000)
          else timedelta (24 * 3600000000))"

text \<open>\<^verbatim>\<open>datetime.now(tz=tz.gettz(tz_name))\<close> at the UTC reading \<open>clock\<close> of the host's
  clock: naive local time when the zone is not found.\<close>

definition datetime_now :: "timelib \<Rightarrow> int \<Rightarrow> string \<Rightarrow> datetime" where
  "datetime_now L clock tz_name =
     (case gettz L tz_name of
        None \<Rightarrow> \<lparr>wall = fromutc (tzlocal L) clock, tzinfo = None\<rparr>
      | Some z \<Rightarrow> \<lparr>wall = fromutc z clock, tzinfo = Some z\<rparr>)"

text \<open>\<^verbatim>\<open>a <= b\<close> on \<^verbatim>\<open>datetime\<close>s: \<^verbatim>\<open>TypeError\<close> between a naive and an aware one; two
  with the same \<^verbatim>\<open>tzinfo\<close> compare by wall clock, others by UTC reading.\<close>

definition dt_le :: "datetime \<Rightarrow> datetime \<Rightarrow> py_exception + bool" where
  "dt_le a b =
     (case (tzinfo a, tzinfo b) of
        (None, None) \<Rightarrow> Inr (wall a \<le> wall b)
      | (Some za, Some zb) \<Rightarrow>
          if zid za = zid zb then Inr (wall a \<le> wall b)
          else Inr (wall a - utcoffset za (wall a) \<le> wall b - utcoffset zb (wall b))
      | _ \<Rightarrow> Inl TypeError)"

text \<open>\<^verbatim>\<open>now.astimezone(tz.UTC) <= ev_time <= until.astimezone(tz.UTC)\<close>, left to right,
  the second comparison only after the first holds.\<close>

definition in_window :: "timelib \<Rightarrow> datetime \<Rightarrow> datetime \<Rightarrow> datetime \<Rightarrow> py_exception + bool" where
  "in_window L now until ev_time =
     (case astimezone L (Some tz_UTC) now of
        Inl e \<Rightarrow> Inl e
      | Inr lo \<Rightarrow>
          (case dt_le lo ev_time of
             Inl e \<Rightarrow> Inl e
           | Inr False \<Rightarrow> Inr False
           | Inr True \<Rightarrow>
               (case astimezone L (Some tz_UTC) until of
                  Inl e \<Rightarrow> Inl e
                | Inr hi \<Rightarrow> dt_le ev_time hi)))"

text \<open>
  The loop over the events. The result is the list of events whose line has been
  printed, in order, and the exception that ended the loop, if one did.
\<close>

fun notify_loop :: "timelib \<Rightarrow> datetime \<Rightarrow> datetime \<Rightarrow> event list \<Rightarrow> event list \<times> py_exception option" where
  "notify_loop L now until [] = ([], None)"
| "notify_loop L now until (e # es) =
     (case time_utc e of
        None \<Rightarrow> notify_loop L now until es
      | Some s \<Rightarrow>
          if s = [] then notify_loop L now until es
          else
            (case parse L s of
               Inl x \<Rightarrow> ([], Some x)
             | Inr ev_time \<Rightarrow>
                 (case in_window L now until ev_time of
                    Inl x \<Rightarrow> ([], Some x)
                  | Inr hit \<Rightarrow>
                      (let (printed, exc) = notify_loop L now until es
                       in (if hit then e # printed else printed, exc)))))"

definition notify_upcoming :: "timelib \<Rightarrow> int \<Rightarrow> event list \<Rightarrow> string \<Rightarrow> string \<Rightarrow> event list \<times> py_exception option" where
  "notify_upcoming L clock events window tz_name =
     (let now = datetime_now L clock tz_name
      in case window_delta window of
           Inl x \<Rightarrow> ([], Some x)
         | Inr delta \<Rightarrow>
             (case dt_add now delta of
                Inl x \<Rightarrow> ([], Some x)
              | Inr until \<Rightarrow> notify_loop L now until events))"

subsection \<open>A small library instance\<close>

text \<open>
  An instance of \<open>timelib\<close> for evaluating the program on concrete inputs. Its parser
  reads two layouts only, \<^verbatim>\<open>YYYY-MM-DD HH:MM\<close> (naive) and the \<^verbatim>\<open>isoformat\<close> of a UTC
  time, \<^verbatim>\<open>YYYY-MM-DDTHH:MM:SS+00:00\<close> (aware), and raises \<^verbatim>\<open>ValueError\<close> on anything else;
  its zone table knows \<^verbatim>\<open>UTC\<close>, and \<^verbatim>\<open>America/New_York\<close> and \<^verbatim>\<open>Europe/Madrid\<close> with their
  daylight-saving rules of the year 2024; the host's zone is UTC.
\<close>

definition at_wall :: "int \<Rightarrow> nat \<Rightarrow> int \<Rightarrow> int \<Rightarrow> int \<Rightarrow> int" where
  "at_wall y m d hh mm = (ymd2ord y m d - 1) * usec_per_day + (hh * 60 + mm) * 60000000"

definition field :: "string \<Rightarrow> nat \<Rightarrow> nat \<Rightarrow> int option" where
  "field s i n = (let ds = take n (drop i s)
     in if length ds = n \<and> list_all py_isdigit ds then Some (digits_val ds) else None)"

definition sample_parse_fields :: "string \<Rightarrow> int option" where
  "sample_parse_fields s =
     (case (field s 0 4, field s 5 2, field s 8 2, field s 11 2, field s 14 2) of
        (Some y, Some m, Some d, Some hh, Some mm) \<Rightarrow>
          if take 1 (drop 4 s) = ''-'' \<and> take 1 (drop 7 s) = ''-'' \<and> take 1 (drop 13 s) = '':''
             \<and> 1 \<le> y \<and> 1 \<le> m \<and> m \<le> 12 \<and> 1 \<le> d
             \<and> d \<le> DAYS_IN_MONTH ! nat m + (if m = 2 \<and> is_leap y then 1 else 0)
             \<and> hh < 24 \<and> mm < 60
          then Some (at_wall y (nat m) d hh mm) else None
      | _ \<Rightarrow> None)"

definition sample_parse :: "string \<Rightarrow> py_exception + datetime" where
  "sample_parse s =
     (case sample_parse_fields s of
        None \<Rightarrow> Inl ValueError
      | Some w \<Rightarrow>
          if length s = 16 \<and> take 1 (drop 10 s) = '' '' then Inr \<lparr>wall = w, tzinfo = None\<rparr>
          else if length s = 25 \<and> take 1 (drop 10 s) = ''T'' \<and> drop 16 s = '':00+00:00''
          then Inr \<lparr>wall = w, tzinfo = Some tz_UTC\<rparr>
          else Inl ValueError)"

text \<open>A zone with one daylight-saving period: \<open>dst\<close> between the two changes, \<open>std\<close>
  outside, the changes given on the UTC scale and on the wall clock.\<close>

definition dst_zone :: "string \<Rightarrow> int \<Rightarrow> int \<Rightarrow> int \<times> int \<Rightarrow> int \<times> int \<Rightarrow> zone" where
  "dst_zone name std dst utc_changes wall_changes =
     \<lparr>zid = name,
      utcoffset = (\<lambda>w. if fst wall_changes \<le> w \<and> w < snd wall_changes then dst else std),
      fromutc = (\<lambda>u. u + (if fst utc_changes \<le> u \<and> u < snd utc_changes then dst else std))\<rparr>"

definition new_york_2024 :: zone where
  "new_york_2024 = dst_zone ''America/New_York'' (- 5 * 3600000000) (- 4 * 3600000000)
     (at_wall 2024 3 10 7 0, at_wall 2024 11 3 6 0)
     (at_wall 2024 3 10 2 0, at_wall 2024 11 3 2 0)"

definition madrid_2024 :: zone where
  "madrid_2024 = dst_zone ''Europe/Madrid'' (1 * 3600000000) (2 * 3600000000)
     (at_wall 2024 3 31 1 0, at_wall 2024 10 27 1 0)
     (at_wall 2024 3 31 2 0, at_wall 2024 10 27 3 0)"

definition sample_gettz :: "string \<Rightarrow> zone option" where
  "sample_gettz name =
     (if name = ''UTC'' then Some tz_UTC
      else if name = ''America/New_York'' then Some new_york_2024
      else if name = ''Europe/Madrid'' then Some madrid_2024
      else None)"

definition sample_lib :: timelib where
  "sample_lib = \<lparr>parse = sample_parse, gettz = sample_gettz, tzlocal = tz_UTC\<rparr>"

subsection \<open>Sample rows\<close>

text \<open>A ForexFactory row and an Investing.com row with the unrecognised importance label
  \<^verbatim>\<open>Critical\<close>, and the events the loops make of them under \<open>sample_lib\<close> without filters.\<close>

definition critical_row :: ff_row where
  "critical_row =
     \<lparr>time_cell = Some ''2024-01-05 08:30'', title_cell = Some ''CPI'',
      country_cell = Some ''US'', impact_cell = Some ''Critical'',
      actual_cell = Some ''3.1%'', forecast_cell = Some ''3.0%'',
      previous_cell = Some ''2,950K''\<rparr>"

definition critical_event :: event where
  "critical_event =
     \<lparr>provider = ''forex_factory'', title = ''CPI'', country = ''US'', importance = ''medium'',
      time_utc = Some ''2024-01-05T13:30:00+00:00'', time_local = Some ''2024-01-05 13:30'',
      timezone = ''UTC'', actual_value = Some (dbl 31 10), forecast_value = Some (dbl 3 1),
      previous_value = Some (dbl 2950000 1),
      event_id = sha1_id [Some ''forex_factory'', Some ''CPI'', Some ''US'',
        Some ''2024-01-05T13:30:00+00:00'']\<rparr>"

definition critical_inv_row :: investing_row where
  "critical_inv_row =
     \<lparr>data_event_title = Some ''CPI'', data_country = Some ''US'',
      data_event_importance = Some ''Critical'',
      data_event_datetime = Some ''2024-01-05 13:30''\<rparr>"

definition critical_inv_event :: event where
  "critical_inv_event =
     \<lparr>provider = ''investing_com'', title = ''CPI'', country = ''US'', importance = ''medium'',
      time_utc = Some ''2024-01-05T13:30:00+00:00'', time_local = Some ''2024-01-05 13:30'',
      timezone = ''UTC'', actual_value = None, forecast_value = None, previous_value = None,
      event_id = sha1_id [Some ''investing_com'', Some ''CPI'', Some ''US'',
        Some ''2024-01-05T13:30:00+00:00'']\<rparr>"

text \<open>An event of the ForexFactory loop dated 2024-03-31 10:30 UTC, the day the clocks
  of \<^verbatim>\<open>Europe/Madrid\<close> go forward.\<close>

definition madrid_event :: event where
  "madrid_event =
     \<lparr>provider = ''forex_factory'', title = ''CPI'', country = ''ES'', importance = ''high'',
      time_utc = Some ''2024-03-31T10:30:00+00:00'', time_local = Some ''2024-03-31 10:30'',
      timezone = ''UTC'', actual_value = None, forecast_value = None, previous_value = None,
      event_id = sha1_id [Some ''forex_factory'', Some ''CPI'', Some ''ES'',
        Some ''2024-03-31T10:30:00+00:00'']\<rparr>"

text \<open>
  For stating what the loop selects: an event is \<open>dated\<close> when its \<^verbatim>\<open>time_utc\<close> is absent
  or empty, or a text the parser reads as a time in UTC; it lies \<open>in_interval\<close> of two UTC
  readings when its \<^verbatim>\<open>time_utc\<close> is such a text and the time read lies between them.
\<close>

definition dated :: "timelib \<Rightarrow> event \<Rightarrow> bool" where
  "dated L e =
     (case time_utc e of
        None \<Rightarrow> True
      | Some s \<Rightarrow>
          if s = [] then True
          else (case parse L s of Inl x \<Rightarrow> False | Inr t \<Rightarrow> tzinfo t = Some tz_UTC))"

definition in_interval :: "timelib \<Rightarrow> int \<Rightarrow> int \<Rightarrow> event \<Rightarrow> bool" where
  "in_interval L lo hi e =
     (case time_utc e of
        None \<Rightarrow> False
      | Some s \<Rightarrow>
          if s = [] then False
          else (case parse L s of Inl x \<Rightarrow> False | Inr t \<Rightarrow> lo \<le> wall t \<and> wall t \<le> hi))"

section \<open>Properties\<close>

subsection \<open>\<^verbatim>\<open>parse_number\<close>\<close>

lemma py_float_raises_only_ValueError: "py_float s = Inl e \<Longrightarrow> e = ValueError"
  by (auto simp: py_float_def Let_def split: if_splits prod.splits option.splits)

lemma parse_number_returns: "\<exists>r. parse_number so = Inr r"
proof (cases so)
  case None
  then show ?thesis by (simp add: parse_number_def)
next
  case (Some s0)
  show ?thesis
  proof (cases "s0 = []")
    case True
    with Some show ?thesis by (simp add: parse_number_def)
  next
    case False
    have "\<exists>r. (case py_float t of Inr x \<Rightarrow> Inr (Some (fmul x m))
                | Inl ValueError \<Rightarrow> Inr None | Inl e \<Rightarrow> Inl e) = (Inr r :: py_exception + pyfloat option)" for t m
    proof (cases "py_float t")
      case (Inl e)
      then have "e = ValueError" by (rule py_float_raises_only_ValueError)
      with Inl show ?thesis by simp
    next
      case (Inr x)
      then show ?thesis by simp
    qed
    with Some False show ?thesis
      by (simp add: parse_number_def Let_def split: prod.splits)
  qed
qed

lemma float_literals:
  "dbl 236000 1 = Fin 7375 5"
  "dbl 31 10 = Fin 6980579422424269 (- 51)"
  "dbl 1200000 1 = Fin 9375 7"
  "dbl (- 5000) 1 = Fin (- 625) 3"
  by code_simp+

text \<open>
  C5. \<^verbatim>\<open>parse_number\<close> never raises, whatever optional string it is given, and
  \<^verbatim>\<open>"236K"\<close> gives 236000.0, \<^verbatim>\<open>"3.1%"\<close> gives 3.1, \<^verbatim>\<open>"1.2M"\<close> gives 1200000.0, the
  empty string and \<^verbatim>\<open>"abc"\<close> give \<^verbatim>\<open>None\<close>, and \<^verbatim>\<open>"-5K"\<close> gives -5000.0. The float
  literals on the right are the binary64 values nearest to the decimals.
\<close>

theorem parse_number_never_raises_and_examples:
  "(\<forall>so. \<exists>r. parse_number so = Inr r)
   \<and> parse_number (Some ''236K'') = Inr (Some (dbl 236000 1))
   \<and> parse_number (Some ''3.1%'') = Inr (Some (dbl 31 10))
   \<and> parse_number (Some ''1.2M'') = Inr (Some (dbl 1200000 1))
   \<and> parse_number (Some '''') = Inr None
   \<and> parse_number (Some ''abc'') = Inr None
   \<and> parse_number (Some ''-5K'') = Inr (Some (dbl (- 5000) 1))"
proof -
  have e1: "parse_number (Some ''236K'') = Inr (Some (dbl 236000 1))" by code_simp
  have e2: "parse_number (Some ''3.1%'') = Inr (Some (dbl 31 10))" by code_simp
  have e3: "parse_number (Some ''1.2M'') = Inr (Some (dbl 1200000 1))" by code_simp
  have e4: "parse_number (Some '''') = Inr None" by code_simp
  have e5: "parse_number (Some ''abc'') = Inr None" by code_simp
  have e6: "parse_number (Some ''-5K'') = Inr (Some (dbl (- 5000) 1))" by code_simp
  from parse_number_returns e1 e2 e3 e4 e5 e6 show ?thesis by blast
qed

subsection \<open>\<^verbatim>\<open>sha1_id\<close>\<close>

lemma take_bar: "pipe_free x \<Longrightarrow> takeWhile (\<lambda>c. c \<noteq> CHR ''|'') (x @ CHR ''|'' # r) = x"
  by (induction x) (auto simp: pipe_free_def)

lemma drop_bar:
  "pipe_free x \<Longrightarrow> dropWhile (\<lambda>c. c \<noteq> CHR ''|'') (x @ CHR ''|'' # r) = CHR ''|'' # r"
  by (induction x) (auto simp: pipe_free_def)

lemma take_nobar: "pipe_free x \<Longrightarrow> takeWhile (\<lambda>c. c \<noteq> CHR ''|'') x = x"
  by (induction x) (auto simp: pipe_free_def)

lemma drop_nobar: "pipe_free x \<Longrightarrow> dropWhile (\<lambda>c. c \<noteq> CHR ''|'') x = []"
  by (induction x) (auto simp: pipe_free_def)

lemma join_head:
  "list_all pipe_free (x # xs) \<Longrightarrow>
     takeWhile (\<lambda>c. c \<noteq> CHR ''|'') (join ''|'' (x # xs)) = x
   \<and> dropWhile (\<lambda>c. c \<noteq> CHR ''|'') (join ''|'' (x # xs))
       = (if xs = [] then [] else CHR ''|'' # join ''|'' xs)"
  by (cases xs) (simp_all add: take_bar drop_bar take_nobar drop_nobar)

lemma join_inj:
  "list_all pipe_free xs \<Longrightarrow> list_all pipe_free ys \<Longrightarrow> xs \<noteq> [] \<Longrightarrow> ys \<noteq> [] \<Longrightarrow>
   join ''|'' xs = join ''|'' ys \<Longrightarrow> xs = ys"
proof (induction xs arbitrary: ys)
  case Nil
  then show ?case by simp
next
  case (Cons x xs)
  from Cons.prems obtain y ys' where ys: "ys = y # ys'" by (cases ys) auto
  from Cons.prems have px: "list_all pipe_free (x # xs)" and py: "list_all pipe_free (y # ys')"
    by (simp_all add: ys)
  from Cons.prems have eq: "join ''|'' (x # xs) = join ''|'' (y # ys')" by (simp add: ys)
  have hx: "x = y"
    using join_head [OF px] join_head [OF py] eq by simp
  have tl: "(if xs = [] then [] else CHR ''|'' # join ''|'' xs)
      = (if ys' = [] then [] else CHR ''|'' # join ''|'' ys')"
    using join_head [OF px] join_head [OF py] eq by simp
  show ?case
  proof (cases "xs = []")
    case True
    with tl have "ys' = []" by (auto split: if_splits)
    with True hx ys show ?thesis by simp
  next
    case False
    with tl have ne: "ys' \<noteq> []" and j: "join ''|'' xs = join ''|'' ys'"
      by (auto split: if_splits)
    from px py have "list_all pipe_free xs" "list_all pipe_free ys'" by simp_all
    from Cons.IH [OF this False ne j] hx ys show ?thesis by simp
  qed
qed

text \<open>The fields that enter the hash of a tuple with three non-empty leading fields.\<close>

lemma id_fields:
  "p \<noteq> [] \<Longrightarrow> t \<noteq> [] \<Longrightarrow> c \<noteq> [] \<Longrightarrow>
   map str_of (filter truthy [Some p, Some t, Some c, u])
     = (if time_str u = [] then [p, t, c] else [p, t, c, time_str u])"
  by (cases u) (simp_all add: truthy_def str_of_def time_str_def)

lemma sha1_id_text_inj:
  assumes "field_ok p" "field_ok t" "field_ok c" "field_ok p'" "field_ok t'" "field_ok c'"
    and "pipe_free (time_str u)" "pipe_free (time_str u')"
    and eq: "sha1_id_text [Some p, Some t, Some c, u] = sha1_id_text [Some p', Some t', Some c', u']"
  shows "(p, t, c, time_str u) = (p', t', c', time_str u')"
proof -
  let ?xs = "if time_str u = [] then [p, t, c] else [p, t, c, time_str u]"
  let ?ys = "if time_str u' = [] then [p', t', c'] else [p', t', c', time_str u']"
  from assms have a: "map str_of (filter truthy [Some p, Some t, Some c, u]) = ?xs"
    by (intro id_fields) (simp_all add: field_ok_def)
  from assms have b: "map str_of (filter truthy [Some p', Some t', Some c', u']) = ?ys"
    by (intro id_fields) (simp_all add: field_ok_def)
  from eq have j: "join ''|'' ?xs = join ''|'' ?ys"
    by (simp only: sha1_id_text_def a b)
  from assms have "list_all pipe_free ?xs" "list_all pipe_free ?ys" "?xs \<noteq> []" "?ys \<noteq> []"
    by (simp_all add: field_ok_def)
  from join_inj [OF this j] show ?thesis by (auto split: if_splits)
qed

lemma of_char_int_bounds: "0 \<le> (of_char c :: int) \<and> (of_char c :: int) < 256"
proof -
  have "(of_char c :: nat) < 256" by simp
  then have "int (of_char c) < 256" by linarith
  moreover have "int (of_char c) = (of_char c :: int)" by (rule of_nat_of_char)
  ultimately show ?thesis by simp
qed

lemma utf8_decode_encode: "utf8_decode (utf8_encode s) = s"
proof (induction s)
  case Nil
  show ?case by (simp add: utf8_encode_def)
next
  case (Cons c s)
  let ?n = "of_char c :: int"
  have enc: "utf8_encode (c # s) = (if ?n < 128 then [?n]
       else [192 + ?n div 64, 128 + ?n mod 64]) @ utf8_encode s"
    by (simp add: utf8_encode_def)
  have rt: "char_of ?n = c" by simp
  show ?case
  proof (cases "?n < 128")
    case True
    show ?thesis
    proof (cases "utf8_encode s")
      case Nil
      with Cons.IH enc True rt show ?thesis by simp
    next
      case (Cons b bs)
      with Cons.IH enc True rt show ?thesis by simp
    qed
  next
    case False
    from of_char_int_bounds [of c] have "0 \<le> ?n div 64"
      by (simp add: pos_imp_zdiv_nonneg_iff)
    then have hi: "\<not> 192 + ?n div 64 < 128" by linarith
    have "?n div 64 * 64 + ?n mod 64 = ?n" by simp
    with Cons.IH enc False hi rt show ?thesis by simp
  qed
qed

lemma utf8_encode_inj: "utf8_encode s = utf8_encode t \<Longrightarrow> s = t"
  by (metis utf8_decode_encode)

text \<open>The digests of the standard test messages.\<close>

lemma sha1_test_vectors:
  "hexdigest (sha1 (utf8_encode ''abc'')) = ''a9993e364706816aba3e25717850c26c9cd0d89d''"
  "hexdigest (sha1 (utf8_encode [])) = ''da39a3ee5e6b4b0d3255bfef95601890afd80709''"
  "hexdigest (sha1 (utf8_encode ''abcdbcdecdefdefgefghfghighijhijkijkljklmklmnlmnomnopnopq''))
     = ''84983e441c3bd26ebaae4aa1f95129e5e54670f1''"
  by code_simp+

text \<open>
  C1 (as amended). Identical tuples have the same digest, the digest being SHA-1 of the
  UTF-8 bytes of the joined text. Two tuples whose provider, title and country are
  non-empty and free of \<^verbatim>\<open>|\<close>, and whose \<^verbatim>\<open>time_utc\<close> is free of \<^verbatim>\<open>|\<close> (absent counting as
  empty), hash different byte strings as soon as they differ in a field: their digests
  can only agree by a collision of SHA-1 itself.
\<close>

theorem sha1_id_separates_well_formed_tuples:
  assumes "field_ok p" "field_ok t" "field_ok c" "field_ok p'" "field_ok t'" "field_ok c'"
    and "pipe_free (time_str u)" "pipe_free (time_str u')"
    and "(p, t, c, time_str u) \<noteq> (p', t', c', time_str u')"
  shows "sha1_id [Some p, Some t, Some c, u]
           = hexdigest (sha1 (utf8_encode (sha1_id_text [Some p, Some t, Some c, u])))
       \<and> sha1_id [Some p', Some t', Some c', u']
           = hexdigest (sha1 (utf8_encode (sha1_id_text [Some p', Some t', Some c', u'])))
       \<and> utf8_encode (sha1_id_text [Some p, Some t, Some c, u])
           \<noteq> utf8_encode (sha1_id_text [Some p', Some t', Some c', u'])"
proof -
  have "sha1_id_text [Some p, Some t, Some c, u] \<noteq> sha1_id_text [Some p', Some t', Some c', u']"
    using sha1_id_text_inj [of p t c p' t' c' u u'] assms by blast
  then have "utf8_encode (sha1_id_text [Some p, Some t, Some c, u])
      \<noteq> utf8_encode (sha1_id_text [Some p', Some t', Some c', u'])"
    using utf8_encode_inj by blast
  then show ?thesis by (simp add: sha1_id_def)
qed

theorem sha1_id_separates_witness:
  "field_ok ''forex_factory'' \<and> field_ok ''CPI'' \<and> field_ok ''GDP'' \<and> field_ok ''US''
   \<and> pipe_free (time_str (Some ''2024-01-05T13:30:00+00:00'')) \<and> pipe_free (time_str None)
   \<and> (''forex_factory'', ''CPI'', ''US'', time_str (Some ''2024-01-05T13:30:00+00:00''))
       \<noteq> (''forex_factory'', ''GDP'', ''US'', time_str None)
   \<and> utf8_encode (sha1_id_text [Some ''forex_factory'', Some ''CPI'', Some ''US'',
         Some ''2024-01-05T13:30:00+00:00''])
       \<noteq> utf8_encode (sha1_id_text [Some ''forex_factory'', Some ''GDP'', Some ''US'', None])"
proof -
  have h: "field_ok ''forex_factory''" "field_ok ''CPI''" "field_ok ''GDP''" "field_ok ''US''"
    "pipe_free (time_str (Some ''2024-01-05T13:30:00+00:00''))" "pipe_free (time_str None)"
    by (simp_all add: field_ok_def pipe_free_def time_str_def)
  have d: "(''forex_factory'', ''CPI'', ''US'', time_str (Some ''2024-01-05T13:30:00+00:00''))
       \<noteq> (''forex_factory'', ''GDP'', ''US'', time_str None)"
    by simp
  from sha1_id_separates_well_formed_tuples [OF h(1) h(2) h(4) h(1) h(3) h(4) h(5) h(6) d] h d
  show ?thesis by blast
qed

text \<open>
  C1 as stated fails: two tuples that differ in title and country have the same joined
  text, hence the same digest with certainty. The Investing.com loop produces both, from
  a row without a country and from a row without a title.
\<close>

theorem sha1_id_collision_counterexample:
  "(''investing_com'', ''GDP'', '''', Some ''2024-01-05T13:30:00+00:00'')
     \<noteq> (''investing_com'', '''', ''GDP'', Some ''2024-01-05T13:30:00+00:00'')
   \<and> sha1_id [Some ''investing_com'', Some ''GDP'', Some '''', Some ''2024-01-05T13:30:00+00:00'']
     = sha1_id [Some ''investing_com'', Some '''', Some ''GDP'', Some ''2024-01-05T13:30:00+00:00'']"
  by (simp add: sha1_id_def sha1_id_text_def truthy_def str_of_def)

text \<open>
  C8. \<^verbatim>\<open>sha1_id\<close> is a function of its arguments alone, the SHA-1 digest of the UTF-8
  bytes of the non-empty arguments joined by \<^verbatim>\<open>|\<close>, and an absent \<^verbatim>\<open>time_utc\<close> gives the
  digest of the empty-string \<^verbatim>\<open>time_utc\<close>.
\<close>

theorem sha1_id_absent_time_equals_empty_time:
  "sha1_id [p, t, c, None] = sha1_id [p, t, c, Some []]
   \<and> sha1_id args = hexdigest (sha1 (utf8_encode (join ''|'' (map str_of (filter truthy args)))))"
  by (simp add: sha1_id_def sha1_id_text_def truthy_def)

subsection \<open>The providers' row loops\<close>

lemma convert_time_returns: "\<exists>u l. convert_time L s f t = Inr (u, l)"
  by (cases "convert_time_try L s f t") (auto simp: convert_time_def)

lemma importance_get_range: "importance_get x \<in> {''low'', ''medium'', ''high''}"
  by (simp add: importance_get_def IMPORTANCE_MAP_def)

lemma ff_appended_importance:
  "ff_process_row L cs imps r = Appended e \<Longrightarrow>
   importance e = importance_get (case impact_cell r of Some i \<Rightarrow> lower i | None \<Rightarrow> ''medium'')"
  by (auto simp: ff_process_row_def Let_def
      split: option.splits if_splits sum.splits prod.splits)

lemma investing_appended_importance:
  "investing_process_row L cs imps r = Appended e \<Longrightarrow>
   importance e = importance_get (lower (get_default (data_event_importance r) ''medium''))"
  by (auto simp: investing_process_row_def Let_def
      split: option.splits if_splits sum.splits prod.splits)

lemma set_appended: "e \<in> set (appended os) \<longleftrightarrow> Appended e \<in> set os"
  by (induction os rule: appended.induct) auto

lemma conv_ny:
  "convert_time sample_lib ''2024-01-05 08:30'' ''America/New_York'' ''UTC''
     = Inr (Some ''2024-01-05T13:30:00+00:00'', Some ''2024-01-05 13:30'')"
  by code_simp

lemma conv_utc:
  "convert_time sample_lib ''2024-01-05 13:30'' ''UTC'' ''UTC''
     = Inr (Some ''2024-01-05T13:30:00+00:00'', Some ''2024-01-05 13:30'')"
  by code_simp

lemma sample_numbers:
  "parse_number (Some ''3.1%'') = Inr (Some (dbl 31 10))"
  "parse_number (Some ''3.0%'') = Inr (Some (dbl 3 1))"
  "parse_number (Some ''2,950K'') = Inr (Some (dbl 2950000 1))"
  by code_simp+

lemma lower_Critical: "lower ''Critical'' = ''critical''"
  by code_simp

lemma critical_label: "importance_get ''critical'' = ''medium''"
  by code_simp

lemma ff_critical_row:
  "ff_process_row sample_lib [] [] critical_row = Appended critical_event"
  by (simp add: Let_def ff_process_row_def critical_row_def critical_event_def conv_ny
      cell_number_def sample_numbers lower_Critical critical_label)

lemma investing_critical_row:
  "investing_process_row sample_lib [] [] critical_inv_row = Appended critical_inv_event"
  by (simp add: Let_def investing_process_row_def critical_inv_row_def critical_inv_event_def conv_utc
      get_default_def lower_Critical critical_label)

lemma ff_critical_row_filtered:
  "ff_process_row sample_lib [] [''medium''] critical_row = Skipped"
  by (simp add: Let_def ff_process_row_def critical_row_def lower_Critical)

lemma investing_critical_row_filtered:
  "investing_process_row sample_lib [] [''medium''] critical_inv_row = Skipped"
  by (simp add: Let_def investing_process_row_def critical_inv_row_def conv_utc
      get_default_def lower_Critical)

text \<open>
  C7. Every event either loop produces has an importance among \<^verbatim>\<open>low\<close>, \<^verbatim>\<open>medium\<close> and
  \<^verbatim>\<open>high\<close>, whatever the raw label; the unrecognised label \<^verbatim>\<open>critical\<close> becomes \<^verbatim>\<open>medium\<close>.
\<close>

theorem importance_always_canonical:
  "(\<forall>e \<in> set (ff_events L cs imps rows) \<union> set (investing_events L cs imps irows).
      importance e \<in> {''low'', ''medium'', ''high''})
   \<and> importance_get (lower ''critical'') = ''medium''"
proof -
  have a: "importance e \<in> {''low'', ''medium'', ''high''}"
    if "e \<in> set (ff_events L cs imps rows)" for e
  proof -
    from that obtain r where "ff_process_row L cs imps r = Appended e"
      by (auto simp: ff_events_def set_appended)
    from ff_appended_importance [OF this] importance_get_range show ?thesis by metis
  qed
  have b: "importance e \<in> {''low'', ''medium'', ''high''}"
    if "e \<in> set (investing_events L cs imps irows)" for e
  proof -
    from that obtain r where "investing_process_row L cs imps r = Appended e"
      by (auto simp: investing_events_def set_appended)
    from investing_appended_importance [OF this] importance_get_range show ?thesis by metis
  qed
  have c: "importance_get (lower ''critical'') = ''medium''" by code_simp
  from a b c show ?thesis by blast
qed

theorem importance_always_canonical_witness:
  "critical_event \<in> set (ff_events sample_lib [] [] [critical_row])
       \<union> set (investing_events sample_lib [] [] [critical_inv_row])
   \<and> impact_cell critical_row = Some ''Critical''
   \<and> importance critical_event \<in> {''low'', ''medium'', ''high''}"
proof -
  have m: "critical_event \<in> set (ff_events sample_lib [] [] [critical_row])
       \<union> set (investing_events sample_lib [] [] [critical_inv_row])"
    by (simp add: ff_events_def ff_critical_row)
  have i: "impact_cell critical_row = Some ''Critical''" by (simp add: critical_row_def)
  from importance_always_canonical [of sample_lib "[]" "[]" "[critical_row]" "[critical_inv_row]"]
    m i show ?thesis by blast
qed

text \<open>
  C3 (as amended). With a non-empty importance allow-list, a record that reaches the
  importance test (in the ForexFactory loop: the title cell is found; in both loops: the
  country test passes) is rejected if and only if its lower-cased raw label, \<^verbatim>\<open>medium\<close>
  when the row has none, is not in the allow-list. The label is tested before the lookup
  table is applied.
\<close>

theorem importance_filter_tests_raw_label:
  assumes "imps \<noteq> []"
  shows "(title_cell r = Some t
            \<and> (cs = [] \<or> (case country_cell r of Some c \<Rightarrow> c | None \<Rightarrow> []) \<in> set cs)
          \<longrightarrow> (ff_process_row L cs imps r = Skipped
                \<longleftrightarrow> (case impact_cell r of Some i \<Rightarrow> lower i | None \<Rightarrow> ''medium'') \<notin> set imps))
       \<and> ((cs = [] \<or> get_default (data_country ir) [] \<in> set cs)
          \<longrightarrow> (investing_process_row L cs imps ir = Skipped
                \<longleftrightarrow> lower (get_default (data_event_importance ir) ''medium'') \<notin> set imps))"
proof (intro conjI impI)
  assume h: "title_cell r = Some t
     \<and> (cs = [] \<or> (case country_cell r of Some c \<Rightarrow> c | None \<Rightarrow> []) \<in> set cs)"
  with assms show "ff_process_row L cs imps r = Skipped
      \<longleftrightarrow> (case impact_cell r of Some i \<Rightarrow> lower i | None \<Rightarrow> ''medium'') \<notin> set imps"
    by (auto simp: ff_process_row_def Let_def split: option.splits sum.splits prod.splits)
next
  assume h: "cs = [] \<or> get_default (data_country ir) [] \<in> set cs"
  obtain u l where c: "convert_time L (get_default (data_event_datetime ir) []) ''UTC'' ''UTC''
      = Inr (u, l)"
    using convert_time_returns by blast
  from assms h c show "investing_process_row L cs imps ir = Skipped
      \<longleftrightarrow> lower (get_default (data_event_importance ir) ''medium'') \<notin> set imps"
    by (auto simp: investing_process_row_def Let_def)
qed

theorem importance_filter_tests_raw_label_witness:
  "[''medium''] \<noteq> [] \<and> title_cell critical_row = Some ''CPI''
   \<and> ff_process_row sample_lib [] [''medium''] critical_row = Skipped
   \<and> (case impact_cell critical_row of Some i \<Rightarrow> lower i | None \<Rightarrow> ''medium'')
        \<notin> set [''medium'']
   \<and> investing_process_row sample_lib [] [''medium''] critical_inv_row = Skipped
   \<and> lower (get_default (data_event_importance critical_inv_row) ''medium'')
        \<notin> set [''medium'']"
proof -
  have n: "[''medium''] \<noteq> []" by simp
  have t: "title_cell critical_row = Some ''CPI''" by (simp add: critical_row_def)
  from importance_filter_tests_raw_label
    [OF n, of critical_row "''CPI''" "[]" sample_lib critical_inv_row]
    t ff_critical_row_filtered investing_critical_row_filtered
  show ?thesis by simp
qed

text \<open>
  C3 as stated fails: the label \<^verbatim>\<open>Critical\<close> has the canonical importance \<^verbatim>\<open>medium\<close>, which
  is in the allow-list, and both loops reject the record.
\<close>

theorem importance_filter_counterexample:
  "impact_cell critical_row = Some ''Critical''
   \<and> data_event_importance critical_inv_row = Some ''Critical''
   \<and> importance_get (lower ''Critical'') \<in> set [''medium'']
   \<and> ff_process_row sample_lib [] [''medium''] critical_row = Skipped
   \<and> investing_process_row sample_lib [] [''medium''] critical_inv_row = Skipped"
  by (simp add: critical_row_def critical_inv_row_def lower_Critical critical_label
      ff_critical_row_filtered [unfolded critical_row_def]
      investing_critical_row_filtered [unfolded critical_inv_row_def])

text \<open>
  C4 (as amended). A ForexFactory row whose title cell is absent is skipped by
  \<^verbatim>\<open>continue\<close>: no event and no exception, whatever the filters.
\<close>

theorem absent_title_cell_skipped:
  "title_cell r = None \<Longrightarrow>
   ff_process_row L cs imps r = Skipped \<and> ff_events L cs imps [r] = []"
  by (simp add: ff_events_def ff_process_row_def)

theorem absent_title_cell_skipped_witness:
  "title_cell (critical_row\<lparr>title_cell := None\<rparr>) = None
   \<and> ff_process_row sample_lib [] [] (critical_row\<lparr>title_cell := None\<rparr>) = Skipped
   \<and> ff_events sample_lib [] [] [critical_row\<lparr>title_cell := None\<rparr>] = []"
  using absent_title_cell_skipped [of "critical_row\<lparr>title_cell := None\<rparr>" sample_lib "[]" "[]"]
  by simp

text \<open>
  C4 as stated fails: a ForexFactory row whose title cell is found with an empty text,
  and an Investing.com row without a title attribute, each give an event with the empty
  title.
\<close>

theorem empty_title_counterexample:
  "ff_process_row sample_lib [] [] (critical_row\<lparr>title_cell := Some []\<rparr>)
     = Appended (critical_event\<lparr>title := [],
         event_id := sha1_id [Some ''forex_factory'', Some [], Some ''US'',
           Some ''2024-01-05T13:30:00+00:00'']\<rparr>)
   \<and> investing_process_row sample_lib [] [] (critical_inv_row\<lparr>data_event_title := None\<rparr>)
     = Appended (critical_inv_event\<lparr>title := [],
         event_id := sha1_id [Some ''investing_com'', Some [], Some ''US'',
           Some ''2024-01-05T13:30:00+00:00'']\<rparr>)"
  by (simp add: Let_def ff_process_row_def critical_row_def critical_event_def conv_ny
      cell_number_def sample_numbers lower_Critical critical_label
      investing_process_row_def critical_inv_row_def critical_inv_event_def conv_utc
      get_default_def)

subsection \<open>\<^verbatim>\<open>convert_time\<close>\<close>

text \<open>
  C2 (as amended). \<^verbatim>\<open>convert_time\<close> never raises to the caller, and a parse failure, like
  any other exception raised inside the \<^verbatim>\<open>try\<close> block, yields \<^verbatim>\<open>(None, None)\<close>. The lookup
  of a timezone does not raise, so an unknown identifier is not among these failures.
\<close>

theorem convert_time_never_raises:
  "(\<exists>r. convert_time L s f t = Inr r)
   \<and> (\<forall>e. parse L s = Inl e \<longrightarrow> convert_time L s f t = Inr (None, None))
   \<and> (\<forall>e. convert_time_try L s f t = Inl e \<longrightarrow> convert_time L s f t = Inr (None, None))"
proof -
  have a: "\<exists>r. convert_time L s f t = Inr r"
    using convert_time_returns [of L s f t] by blast
  have b: "convert_time L s f t = Inr (None, None)" if "parse L s = Inl e" for e
    using that by (simp add: convert_time_def convert_time_try_def)
  have c: "convert_time L s f t = Inr (None, None)" if "convert_time_try L s f t = Inl e" for e
    using that by (simp add: convert_time_def)
  from a b c show ?thesis by blast
qed

theorem convert_time_never_raises_witness:
  "parse sample_lib ''Jan 5'' = Inl ValueError
   \<and> convert_time_try sample_lib ''Jan 5'' ''America/New_York'' ''UTC'' = Inl ValueError
   \<and> convert_time sample_lib ''Jan 5'' ''America/New_York'' ''UTC'' = Inr (None, None)"
proof -
  have "sample_parse_fields ''Jan 5'' = None" by code_simp
  then have p: "parse sample_lib ''Jan 5'' = Inl ValueError"
    by (simp add: sample_lib_def sample_parse_def)
  then have q: "convert_time_try sample_lib ''Jan 5'' ''America/New_York'' ''UTC'' = Inl ValueError"
    by (simp add: convert_time_try_def)
  from convert_time_never_raises [of sample_lib "''Jan 5''" "''America/New_York''" "''UTC''"] p q
  show ?thesis by blast
qed

text \<open>
  C2 as stated fails for timezone identifiers: with a source and a target identifier
  the zone table does not know, \<^verbatim>\<open>convert_time\<close> returns two renderings (made with the
  host's zone), not \<^verbatim>\<open>(None, None)\<close>.
\<close>

theorem unknown_zone_counterexample:
  "gettz sample_lib ''Mars/Olympus'' = None \<and> gettz sample_lib ''Moon/Base'' = None
   \<and> convert_time sample_lib ''2024-01-05 08:30'' ''Mars/Olympus'' ''Moon/Base''
       = Inr (Some ''2024-01-05T08:30:00+00:00'', Some ''2024-01-05 08:30'')"
proof -
  have a: "gettz sample_lib ''Mars/Olympus'' = None" "gettz sample_lib ''Moon/Base'' = None"
    by (simp_all add: sample_lib_def sample_gettz_def)
  have b: "convert_time sample_lib ''2024-01-05 08:30'' ''Mars/Olympus'' ''Moon/Base''
       = Inr (Some ''2024-01-05T08:30:00+00:00'', Some ''2024-01-05 08:30'')"
    by code_simp
  from a b show ?thesis by simp
qed

lemma sample_parse_naive:
  "sample_parse_fields s = Some w \<Longrightarrow> length s = 16 \<and> take 1 (drop 10 s) = '' '' \<Longrightarrow>
   parse sample_lib s = Inr \<lparr>wall = w, tzinfo = None\<rparr>"
  by (simp add: sample_lib_def sample_parse_def)

lemma sample_parse_aware:
  "sample_parse_fields s = Some w \<Longrightarrow>
   length s = 25 \<and> take 1 (drop 10 s) = ''T'' \<and> drop 16 s = '':00+00:00'' \<Longrightarrow>
   parse sample_lib s = Inr \<lparr>wall = w, tzinfo = Some tz_UTC\<rparr>"
  by (simp add: sample_lib_def sample_parse_def)

text \<open>
  C9. Take a zone \<open>Z\<close> the table knows under the name \<open>z\<close> (\<^verbatim>\<open>tz.UTC\<close> itself or another
  zone object), a text \<open>s\<close> the parser reads as the wall-clock time \<open>wall d\<close>, and let
  \<open>U = wall d - utcoffset Z (wall d)\<close> be the UTC reading \<^verbatim>\<open>convert_time\<close> computes; both lie
  in the years 1 to 9999, the zone shows \<open>wall d\<close> at \<open>U\<close> (the wall-clock time is the
  expression of an instant in \<open>Z\<close>), and the parser reads the \<^verbatim>\<open>isoformat\<close> of \<open>U\<close> back.
  Then \<^verbatim>\<open>convert_time\<close> from \<open>Z\<close> gives the UTC rendering of \<open>U\<close>, its local rendering in
  \<open>Z\<close> is the original wall-clock time to the minute, and converting the UTC rendering
  back to \<open>Z\<close> gives the original wall-clock time to the minute again.
\<close>

theorem convert_time_round_trip:
  assumes zone: "gettz L z = Some Z" "z \<noteq> []" "zid Z \<noteq> zid tz_UTC \<or> Z = tz_UTC"
    and parsed: "parse L s = Inr d"
    and range: "in_range (wall d)" "in_range (wall d - utcoffset Z (wall d))"
    and shown: "fromutc Z (wall d - utcoffset Z (wall d)) = wall d"
    and reread: "parse L (isoformat \<lparr>wall = wall d - utcoffset Z (wall d), tzinfo = Some tz_UTC\<rparr>)
                 = Inr du"
              "wall du = wall d - utcoffset Z (wall d)"
  shows "convert_time L s z z
           = Inr (Some (isoformat \<lparr>wall = wall d - utcoffset Z (wall d), tzinfo = Some tz_UTC\<rparr>),
                  Some (strftime_minute d))
       \<and> convert_time L (isoformat \<lparr>wall = wall d - utcoffset Z (wall d), tzinfo = Some tz_UTC\<rparr>)
             [] z
           = Inr (Some (isoformat \<lparr>wall = wall d - utcoffset Z (wall d), tzinfo = Some tz_UTC\<rparr>),
                  Some (strftime_minute d))"
proof -
  let ?U = "wall d - utcoffset Z (wall d)"
  let ?u = "isoformat \<lparr>wall = ?U, tzinfo = Some tz_UTC\<rparr>"
  have utc0: "in_range (fromutc tz_UTC ?U)" "fromutc tz_UTC ?U = ?U" "utcoffset tz_UTC x = 0" for x
    using range by (simp_all add: tz_UTC_def)
  have first_utc: "astimezone L (Some tz_UTC) (d\<lparr>tzinfo := Some Z\<rparr>)
      = Inr \<lparr>wall = ?U, tzinfo = Some tz_UTC\<rparr>"
  proof (cases "Z = tz_UTC")
    case True
    with utc0 show ?thesis by (simp add: astimezone_def Let_def)
  next
    case False
    with zone range utc0 show ?thesis by (simp add: astimezone_def Let_def)
  qed
  have first_local: "astimezone L (Some Z) (d\<lparr>tzinfo := Some Z\<rparr>) = Inr (d\<lparr>tzinfo := Some Z\<rparr>)"
    by (simp add: astimezone_def Let_def)
  have one: "convert_time L s z z = Inr (Some ?u, Some (strftime_minute d))"
    using zone parsed first_utc first_local
    by (simp add: convert_time_def convert_time_try_def Let_def strftime_minute_def)
  have iso: "isoformat (du\<lparr>tzinfo := Some tz_UTC\<rparr>) = ?u"
    using reread by (simp add: isoformat_def)
  have second_utc: "astimezone L (Some tz_UTC) (du\<lparr>tzinfo := Some tz_UTC\<rparr>)
      = Inr (du\<lparr>tzinfo := Some tz_UTC\<rparr>)"
    by (simp add: astimezone_def Let_def)
  have second_local: "\<exists>l. astimezone L (Some Z) (du\<lparr>tzinfo := Some tz_UTC\<rparr>) = Inr l
      \<and> wall l = wall d"
  proof (cases "Z = tz_UTC")
    case True
    with reread utc0 show ?thesis by (simp add: astimezone_def Let_def)
  next
    case False
    with zone range shown reread utc0 show ?thesis by (simp add: astimezone_def Let_def)
  qed
  then obtain l where l: "astimezone L (Some Z) (du\<lparr>tzinfo := Some tz_UTC\<rparr>) = Inr l"
    "wall l = wall d"
    by blast
  have two: "convert_time L ?u [] z = Inr (Some ?u, Some (strftime_minute d))"
    using zone reread(1) second_utc l iso
    by (simp add: convert_time_def convert_time_try_def Let_def strftime_minute_def)
  from one two show ?thesis by simp
qed

theorem convert_time_round_trip_witness:
  "gettz sample_lib ''America/New_York'' = Some new_york_2024
   \<and> parse sample_lib ''2024-07-05 08:30'' = Inr \<lparr>wall = at_wall 2024 7 5 8 30, tzinfo = None\<rparr>
   \<and> at_wall 2024 7 5 8 30 - utcoffset new_york_2024 (at_wall 2024 7 5 8 30)
       = at_wall 2024 7 5 12 30
   \<and> fromutc new_york_2024 (at_wall 2024 7 5 12 30) = at_wall 2024 7 5 8 30
   \<and> parse sample_lib ''2024-07-05T12:30:00+00:00''
       = Inr \<lparr>wall = at_wall 2024 7 5 12 30, tzinfo = Some tz_UTC\<rparr>
   \<and> convert_time sample_lib ''2024-07-05 08:30'' ''America/New_York'' ''America/New_York''
       = Inr (Some ''2024-07-05T12:30:00+00:00'', Some ''2024-07-05 08:30'')
   \<and> convert_time sample_lib ''2024-07-05T12:30:00+00:00'' [] ''America/New_York''
       = Inr (Some ''2024-07-05T12:30:00+00:00'', Some ''2024-07-05 08:30'')"
proof -
  let ?w = "at_wall 2024 7 5 8 30"
  let ?U = "at_wall 2024 7 5 12 30"
  let ?d = "\<lparr>wall = ?w, tzinfo = None\<rparr>"
  let ?du = "\<lparr>wall = ?U, tzinfo = Some tz_UTC\<rparr>"
  have g: "gettz sample_lib ''America/New_York'' = Some new_york_2024"
    by (simp add: sample_lib_def sample_gettz_def)
  have nz: "''America/New_York'' \<noteq> []" by simp
  have zz: "zid new_york_2024 \<noteq> zid tz_UTC \<or> new_york_2024 = tz_UTC"
    by (simp add: new_york_2024_def dst_zone_def tz_UTC_def)
  have "sample_parse_fields ''2024-07-05 08:30'' = Some (?w)" by code_simp
  moreover have "length ''2024-07-05 08:30'' = 16 \<and> take 1 (drop 10 ''2024-07-05 08:30'') = '' ''"
    by code_simp
  ultimately have p: "parse sample_lib ''2024-07-05 08:30'' = Inr ?d"
    by (rule sample_parse_naive)
  have U: "?w - utcoffset new_york_2024 ?w = ?U" by code_simp
  have r1: "in_range ?w" by code_simp
  have r2: "in_range ?U" by code_simp
  have sh: "fromutc new_york_2024 ?U = ?w" by code_simp
  have iso: "isoformat ?du = ''2024-07-05T12:30:00+00:00''" by code_simp
  have rm: "strftime_minute ?d = ''2024-07-05 08:30''" by code_simp
  have "sample_parse_fields ''2024-07-05T12:30:00+00:00'' = Some (?U)" by code_simp
  moreover have "length ''2024-07-05T12:30:00+00:00'' = 25
      \<and> take 1 (drop 10 ''2024-07-05T12:30:00+00:00'') = ''T''
      \<and> drop 16 ''2024-07-05T12:30:00+00:00'' = '':00+00:00''"
    by code_simp
  ultimately have rr: "parse sample_lib ''2024-07-05T12:30:00+00:00'' = Inr ?du"
    by (rule sample_parse_aware)
  have rt: "convert_time sample_lib ''2024-07-05 08:30'' ''America/New_York'' ''America/New_York''
       = Inr (Some ''2024-07-05T12:30:00+00:00'', Some ''2024-07-05 08:30'')
   \<and> convert_time sample_lib ''2024-07-05T12:30:00+00:00'' [] ''America/New_York''
       = Inr (Some ''2024-07-05T12:30:00+00:00'', Some ''2024-07-05 08:30'')"
    using convert_time_round_trip [of sample_lib "''America/New_York''" new_york_2024
        "''2024-07-05 08:30''" ?d ?du] g nz zz p r1 r2 sh rr U iso rm
    by simp
  from g p U sh rr rt show ?thesis by blast
qed

subsection \<open>\<^verbatim>\<open>notify_upcoming\<close>\<close>

lemma notify_upcoming_bad_magnitude:
  "py_int (butlast w) = Inl x \<Longrightarrow> notify_upcoming L clock evs w tz = ([], Some x)"
  by (simp add: notify_upcoming_def window_delta_def Let_def)

lemma timedelta_day: "timedelta 86400000000 = Inr 86400000000"
  by (simp add: timedelta_def usec_per_day_def)

lemma window_delta_fallback:
  "py_int (butlast w) = Inr n \<Longrightarrow> w \<noteq> [] \<Longrightarrow> last w \<noteq> CHR ''h'' \<Longrightarrow> last w \<noteq> CHR ''m'' \<Longrightarrow>
   window_delta w = Inr 86400000000"
  by (simp add: window_delta_def timedelta_day)

lemma window_delta_parsed: "window_delta w = Inr d \<Longrightarrow> \<exists>n. py_int (butlast w) = Inr n"
  by (cases "py_int (butlast w)") (simp_all add: window_delta_def)

text \<open>
  C10. When the text before the last character of the window is not an integer,
  \<^verbatim>\<open>notify_upcoming\<close> raises the exception of \<^verbatim>\<open>int\<close> and prints nothing; \<^verbatim>\<open>day\<close> and the
  empty string raise \<^verbatim>\<open>ValueError\<close>. The 24-hour fallback is taken when that text is an
  integer and the last character is neither \<^verbatim>\<open>h\<close> nor \<^verbatim>\<open>m\<close>, and a window has a duration
  only if that text is an integer.
\<close>

theorem bad_window_raises:
  "(py_int (butlast w1) = Inl x \<longrightarrow> notify_upcoming L clock evs w1 tz = ([], Some x))
   \<and> notify_upcoming L clock evs ''day'' tz = ([], Some ValueError)
   \<and> notify_upcoming L clock evs [] tz = ([], Some ValueError)
   \<and> (py_int (butlast w2) = Inr n \<and> w2 \<noteq> [] \<and> last w2 \<noteq> CHR ''h'' \<and> last w2 \<noteq> CHR ''m''
        \<longrightarrow> window_delta w2 = Inr 86400000000)
   \<and> (window_delta w3 = Inr d \<longrightarrow> (\<exists>k. py_int (butlast w3) = Inr k))"
proof -
  have a: "py_int (butlast ''day'') = Inl ValueError" by code_simp
  have b: "py_int (butlast []) = Inl ValueError" by code_simp
  from notify_upcoming_bad_magnitude [OF a] notify_upcoming_bad_magnitude [OF b]
    notify_upcoming_bad_magnitude [of w1 x] window_delta_fallback [of w2 n]
    window_delta_parsed [of w3 d]
  show ?thesis by blast
qed

theorem bad_window_raises_witness:
  "py_int (butlast ''day'') = Inl ValueError
   \<and> notify_upcoming sample_lib 0 [] ''day'' ''UTC'' = ([], Some ValueError)
   \<and> py_int (butlast ''7d'') = Inr 7 \<and> ''7d'' \<noteq> [] \<and> last ''7d'' \<noteq> CHR ''h''
   \<and> last ''7d'' \<noteq> CHR ''m'' \<and> window_delta ''7d'' = Inr 86400000000
   \<and> (\<exists>k. py_int (butlast ''7d'') = Inr k)"
proof -
  have a: "py_int (butlast ''day'') = Inl ValueError" by code_simp
  have b: "py_int (butlast ''7d'') = Inr 7" by code_simp
  have c: "''7d'' \<noteq> [] \<and> last ''7d'' \<noteq> CHR ''h'' \<and> last ''7d'' \<noteq> CHR ''m''" by simp
  from bad_window_raises [of "''day''" ValueError sample_lib 0 "[]" "''UTC''" "''7d''" 7
      "''7d''" 86400000000] a b c
  show ?thesis by blast
qed

lemma notify_loop_single:
  "time_utc e = Some s \<Longrightarrow> s \<noteq> [] \<Longrightarrow> parse L s = Inr t \<Longrightarrow> in_window L now until t = Inr hit \<Longrightarrow>
   notify_loop L now until [e] = (if hit then [e] else [], None)"
  by simp

lemma sample_now_madrid:
  "datetime_now sample_lib (at_wall 2024 3 30 11 0) ''Europe/Madrid''
     = \<lparr>wall = at_wall 2024 3 30 12 0, tzinfo = Some madrid_2024\<rparr>"
proof -
  have "fromutc madrid_2024 (at_wall 2024 3 30 11 0) = at_wall 2024 3 30 12 0" by code_simp
  then show ?thesis by (simp add: datetime_now_def sample_lib_def sample_gettz_def)
qed

lemma sample_now_utc:
  "datetime_now sample_lib (at_wall 2024 3 30 11 0) ''UTC''
     = \<lparr>wall = at_wall 2024 3 30 11 0, tzinfo = Some tz_UTC\<rparr>"
  by (simp add: datetime_now_def sample_lib_def sample_gettz_def tz_UTC_def)

lemma sample_until:
  "dt_add \<lparr>wall = at_wall 2024 3 30 12 0, tzinfo = Some madrid_2024\<rparr> 86400000000
     = Inr \<lparr>wall = at_wall 2024 3 31 12 0, tzinfo = Some madrid_2024\<rparr>"
  "dt_add \<lparr>wall = at_wall 2024 3 30 11 0, tzinfo = Some tz_UTC\<rparr> 86400000000
     = Inr \<lparr>wall = at_wall 2024 3 31 11 0, tzinfo = Some tz_UTC\<rparr>"
proof -
  have "in_range (at_wall 2024 3 30 12 0 + 86400000000)"
    "at_wall 2024 3 30 12 0 + 86400000000 = at_wall 2024 3 31 12 0"
    "in_range (at_wall 2024 3 30 11 0 + 86400000000)"
    "at_wall 2024 3 30 11 0 + 86400000000 = at_wall 2024 3 31 11 0"
    by code_simp+
  then show
    "dt_add \<lparr>wall = at_wall 2024 3 30 12 0, tzinfo = Some madrid_2024\<rparr> 86400000000
       = Inr \<lparr>wall = at_wall 2024 3 31 12 0, tzinfo = Some madrid_2024\<rparr>"
    "dt_add \<lparr>wall = at_wall 2024 3 30 11 0, tzinfo = Some tz_UTC\<rparr> 86400000000
       = Inr \<lparr>wall = at_wall 2024 3 31 11 0, tzinfo = Some tz_UTC\<rparr>"
    by (simp_all add: dt_add_def)
qed

lemma sample_event_time:
  "parse sample_lib ''2024-03-31T10:30:00+00:00''
     = Inr \<lparr>wall = at_wall 2024 3 31 10 30, tzinfo = Some tz_UTC\<rparr>"
proof -
  have "sample_parse_fields ''2024-03-31T10:30:00+00:00'' = Some (at_wall 2024 3 31 10 30)"
    by code_simp
  moreover have "length ''2024-03-31T10:30:00+00:00'' = 25
      \<and> take 1 (drop 10 ''2024-03-31T10:30:00+00:00'') = ''T''
      \<and> drop 16 ''2024-03-31T10:30:00+00:00'' = '':00+00:00''"
    by code_simp
  ultimately show ?thesis by (rule sample_parse_aware)
qed

lemma sample_in_window:
  "in_window sample_lib \<lparr>wall = at_wall 2024 3 30 12 0, tzinfo = Some madrid_2024\<rparr>
     \<lparr>wall = at_wall 2024 3 31 12 0, tzinfo = Some madrid_2024\<rparr>
     \<lparr>wall = at_wall 2024 3 31 10 30, tzinfo = Some tz_UTC\<rparr> = Inr False"
  "in_window sample_lib \<lparr>wall = at_wall 2024 3 30 11 0, tzinfo = Some tz_UTC\<rparr>
     \<lparr>wall = at_wall 2024 3 31 11 0, tzinfo = Some tz_UTC\<rparr>
     \<lparr>wall = at_wall 2024 3 31 10 30, tzinfo = Some tz_UTC\<rparr> = Inr True"
  by code_simp+

lemma window_24h: "window_delta ''24h'' = Inr 86400000000"
  by code_simp

lemma dt_le_utc:
  "tzinfo a = Some tz_UTC \<Longrightarrow> tzinfo b = Some tz_UTC \<Longrightarrow> dt_le a b = Inr (wall a \<le> wall b)"
  by (simp add: dt_le_def)

lemma in_window_utc:
  assumes "astimezone L (Some tz_UTC) now = Inr lo" "tzinfo lo = Some tz_UTC"
    and "astimezone L (Some tz_UTC) until = Inr hi" "tzinfo hi = Some tz_UTC"
    and "tzinfo t = Some tz_UTC"
  shows "in_window L now until t = Inr (wall lo \<le> wall t \<and> wall t \<le> wall hi)"
  using assms by (cases "wall lo \<le> wall t") (simp_all add: in_window_def dt_le_utc)

lemma notify_loop_selects:
  assumes "astimezone L (Some tz_UTC) now = Inr lo" "tzinfo lo = Some tz_UTC"
    and "astimezone L (Some tz_UTC) until = Inr hi" "tzinfo hi = Some tz_UTC"
    and "list_all (dated L) es"
  shows "notify_loop L now until es = (filter (in_interval L (wall lo) (wall hi)) es, None)"
  using assms(5)
proof (induction es)
  case Nil
  show ?case by simp
next
  case (Cons e es)
  then have ih: "notify_loop L now until es = (filter (in_interval L (wall lo) (wall hi)) es, None)"
    and d: "dated L e"
    by simp_all
  show ?case
  proof (cases "time_utc e")
    case None
    then have "\<not> in_interval L (wall lo) (wall hi) e" by (simp add: in_interval_def)
    with None ih show ?thesis by simp
  next
    case (Some s)
    show ?thesis
    proof (cases "s = []")
      case True
      with Some have "\<not> in_interval L (wall lo) (wall hi) e" by (simp add: in_interval_def)
      with Some True ih show ?thesis by simp
    next
      case False
      with Some d obtain t where p: "parse L s = Inr t" and u: "tzinfo t = Some tz_UTC"
        by (auto simp: dated_def split: sum.splits)
      from Some False p
      have "in_interval L (wall lo) (wall hi) e \<longleftrightarrow> wall lo \<le> wall t \<and> wall t \<le> wall hi"
        by (simp add: in_interval_def)
      with in_window_utc [OF assms(1-4) u] Some False p ih show ?thesis by simp
    qed
  qed
qed

text \<open>
  In a display zone whose offset is the same \<open>k\<close> at all times, \<^verbatim>\<open>notify_upcoming\<close> prints
  exactly the events dated between the clock reading and the clock reading plus the
  window, in their order.
\<close>

lemma notify_upcoming_constant_offset:
  assumes z: "gettz L tz = Some z" "zid z \<noteq> zid tz_UTC"
      "\<And>w. utcoffset z w = k" "\<And>u. fromutc z u = u + k"
    and w: "window_delta window = Inr delta"
    and r: "in_range clock" "in_range (clock + delta)" "in_range (clock + k + delta)"
    and es: "list_all (dated L) es"
  shows "notify_upcoming L clock es window tz
           = (filter (in_interval L clock (clock + delta)) es, None)"
proof -
  let ?now = "\<lparr>wall = clock + k, tzinfo = Some z\<rparr>"
  let ?until = "\<lparr>wall = clock + k + delta, tzinfo = Some z\<rparr>"
  have n: "datetime_now L clock tz = ?now"
    using z by (simp add: datetime_now_def)
  have a: "dt_add ?now delta = Inr ?until"
    using r by (simp add: dt_add_def)
  have lo: "astimezone L (Some tz_UTC) ?now = Inr \<lparr>wall = clock, tzinfo = Some tz_UTC\<rparr>"
    using z r by (simp add: astimezone_def Let_def tz_UTC_def)
  have hi: "astimezone L (Some tz_UTC) ?until
      = Inr \<lparr>wall = clock + delta, tzinfo = Some tz_UTC\<rparr>"
    using z r by (simp add: astimezone_def Let_def tz_UTC_def)
  from notify_loop_selects [OF lo _ hi _ es] n a w show ?thesis
    by (simp add: notify_upcoming_def)
qed

text \<open>
  C6 at a failing input. The host's clock reads 2024-03-30 11:00 UTC, the window is
  \<^verbatim>\<open>24h\<close>, and the event is dated 2024-03-31 10:30 UTC, inside the interval from now to
  now plus 24 hours. With the display zone \<^verbatim>\<open>Europe/Madrid\<close>, whose clocks go forward in
  between, \<^verbatim>\<open>notify_upcoming\<close> prints nothing; with the display zone \<^verbatim>\<open>UTC\<close> it prints the
  event.
\<close>

theorem notify_window_across_clock_change:
  "time_utc madrid_event = Some ''2024-03-31T10:30:00+00:00''
   \<and> parse sample_lib ''2024-03-31T10:30:00+00:00''
       = Inr \<lparr>wall = at_wall 2024 3 31 10 30, tzinfo = Some tz_UTC\<rparr>
   \<and> at_wall 2024 3 30 11 0 \<le> at_wall 2024 3 31 10 30
   \<and> at_wall 2024 3 31 10 30 \<le> at_wall 2024 3 30 11 0 + 24 * 3600000000
   \<and> notify_upcoming sample_lib (at_wall 2024 3 30 11 0) [madrid_event] ''24h'' ''Europe/Madrid''
       = ([], None)
   \<and> notify_upcoming sample_lib (at_wall 2024 3 30 11 0) [madrid_event] ''24h'' ''UTC''
       = ([madrid_event], None)"
proof -
  have t: "time_utc madrid_event = Some ''2024-03-31T10:30:00+00:00''"
    by (simp add: madrid_event_def)
  have ne: "''2024-03-31T10:30:00+00:00'' \<noteq> []" by simp
  have i: "at_wall 2024 3 30 11 0 \<le> at_wall 2024 3 31 10 30"
    "at_wall 2024 3 31 10 30 \<le> at_wall 2024 3 30 11 0 + 24 * 3600000000"
    by code_simp+
  have m: "notify_upcoming sample_lib (at_wall 2024 3 30 11 0) [madrid_event] ''24h''
      ''Europe/Madrid'' = ([], None)"
    using notify_loop_single [OF t ne sample_event_time sample_in_window(1)]
    by (simp only: notify_upcoming_def Let_def sample_now_madrid window_24h sample_until
        sum.case if_False)
  have u: "notify_upcoming sample_lib (at_wall 2024 3 30 11 0) [madrid_event] ''24h'' ''UTC''
      = ([madrid_event], None)"
    using notify_loop_single [OF t ne sample_event_time sample_in_window(2)]
    by (simp only: notify_upcoming_def Let_def sample_now_utc window_24h sample_until
        sum.case if_True)
  from t sample_event_time i m u show ?thesis by blast
qed

end
